theory Spec2Isabelle
  imports Main
begin

section \<open>Zoho time-log automation: a model of \<open>zoho_log_time.py\<close>\<close>

text \<open>
  The script reads its configuration from the environment, exchanges a refresh token for
  an access token (one POST), computes yesterday's date and a duration from two clock
  strings, and submits one time log (a second POST). Every failure ends the process:
  \<open>sys.exit(1)\<close> where the script reports the error itself, an uncaught exception
  (traceback, exit status 1) where it does not.

  Strings are lists of bytes (UTF-8). What \<open>int()\<close> makes of non-ASCII characters
  (Unicode decimal digits and spaces) depends on the interpreter's Unicode tables, and
  the longest integer literal it reads on its \<open>int_max_str_digits\<close> setting; both
  are parameters of the model.

  The repository holds an earlier variant of the script under \<open>Scripts/\<close>, with a
  fixed duration and a fixed UTC offset; the model is of the configurable script.
\<close>

subsection \<open>Characters and decimal numerals\<close>

definition digit_char :: "nat \<Rightarrow> char" where
  "digit_char n = char_of (48 + n)"

definition is_digit :: "char \<Rightarrow> bool" where
  "is_digit c = (48 \<le> (of_char c :: nat) \<and> (of_char c :: nat) \<le> 57)"

definition digit_val :: "char \<Rightarrow> nat" where
  "digit_val c = (of_char c :: nat) - 48"

text \<open>The whitespace \<open>int()\<close> skips: space, \<open>\t \n \v \f \r\<close>.\<close>

definition is_space :: "char \<Rightarrow> bool" where
  "is_space c = ((of_char c :: nat) = 32 \<or> (9 \<le> (of_char c :: nat) \<and> (of_char c :: nat) \<le> 13))"

definition digit_or_underscore :: "char \<Rightarrow> bool" where
  "digit_or_underscore c = (is_digit c \<or> c = CHR ''_'')"

definition non_ascii :: "char \<Rightarrow> bool" where
  "non_ascii c = (128 \<le> (of_char c :: nat))"

text \<open>Decimal digits of a natural number, most significant first.\<close>

fun digits10 :: "nat \<Rightarrow> string" where
  "digits10 n = (if n < 10 then [digit_char n] else digits10 (n div 10) @ [digit_char (n mod 10)])"

declare digits10.simps [simp del]

definition zfill :: "nat \<Rightarrow> string \<Rightarrow> string" where
  "zfill w s = replicate (w - length s) (CHR ''0'') @ s"

text \<open>The format spec \<open>{n:02d}\<close>: the sign counts towards the width.\<close>

definition fmt_02d :: "int \<Rightarrow> string" where
  "fmt_02d n = (if n < 0 then CHR ''-'' # zfill 1 (digits10 (nat (- n)))
                else zfill 2 (digits10 (nat n)))"

subsection \<open>Exceptions the script does not catch\<close>

datatype pyfloat = Finite int int | Infinite bool | NaN

datatype json =
    JNull
  | JBool bool
  | JInt int
  | JFloat pyfloat
  | JStr string
  | JArr "json list"
  | JObj "(string \<times> json) list"

datatype exn =
    InvalidLiteral string  \<comment> \<open>ValueError: invalid literal for int() with base 10: the piece\<close>
  | NotEnoughValues nat    \<comment> \<open>ValueError: not enough values to unpack (expected 2, got n)\<close>
  | TooManyValues          \<comment> \<open>ValueError: too many values to unpack (expected 2)\<close>
  | HourOutOfRange         \<comment> \<open>ValueError: hour must be in 0..23\<close>
  | MinuteOutOfRange       \<comment> \<open>ValueError: minute must be in 0..59\<close>
  | DateOutOfRange         \<comment> \<open>OverflowError: date value out of range\<close>
  | ZoneInfoFailed string  \<comment> \<open>ZoneInfoNotFoundError or ValueError from ZoneInfo(key)\<close>
  | NoGetAttribute json    \<comment> \<open>AttributeError: object has no attribute 'get'\<close>
  | BodyNotDecodable       \<comment> \<open>UnicodeDecodeError inside the HTTPError handler\<close>
  | DigitLimitExceeded nat \<comment> \<open>ValueError: Exceeds the limit for integer string conversion: value has n digits\<close>
  | CIntOverflow           \<comment> \<open>OverflowError: the integer does not fit a C int\<close>

subsection \<open>\<open>int(s)\<close> and \<open>s.split(":")\<close>\<close>

text \<open>
  After the first digit: digits, each optionally preceded by one underscore.
\<close>

fun int_digits :: "nat \<Rightarrow> string \<Rightarrow> nat option" where
  "int_digits acc [] = Some acc"
| "int_digits acc [c] = (if is_digit c then Some (acc * 10 + digit_val c) else None)"
| "int_digits acc (c # d # cs) =
     (if is_digit c then int_digits (acc * 10 + digit_val c) (d # cs)
      else if c = CHR ''_'' \<and> is_digit d then int_digits (acc * 10 + digit_val d) cs
      else None)"

text \<open>
  Before it parses, \<open>int()\<close> turns the string into ASCII: ASCII characters stay, a
  Unicode space becomes a space, a Unicode decimal digit its ASCII digit and any other
  character \<open>?\<close>. The parameter \<open>tab\<close> is what the interpreter's Unicode tables make of
  a run of non-ASCII bytes.
\<close>

function to_ascii :: "(string \<Rightarrow> string) \<Rightarrow> string \<Rightarrow> string" where
  "to_ascii tab [] = []"
| "to_ascii tab (c # cs) =
     (if non_ascii c then tab (c # takeWhile non_ascii cs) @ to_ascii tab (dropWhile non_ascii cs)
      else c # to_ascii tab cs)"
  by pat_completeness auto
termination
  by (relation "measure (\<lambda>(tab, s). length s)") (auto simp: length_dropWhile_le less_Suc_eq_le)

text \<open>
  The parse of the ASCII text, in the interpreter's order: leading whitespace, one sign,
  the run of digits and underscores (which must start and end with a digit and have no
  two underscores in a row), the limit on the number of digits (applied above 640 digits
  when the setting is not 0), and only then the rest, which must be whitespace.
\<close>

definition py_int_ascii :: "nat \<Rightarrow> string \<Rightarrow> string \<Rightarrow> exn + int" where
  "py_int_ascii max_digits s a =
     (let t = dropWhile is_space a;
          neg = (case t of c # _ \<Rightarrow> c = CHR ''-'' | [] \<Rightarrow> False);
          u = (case t of c # r \<Rightarrow> if c = CHR ''-'' \<or> c = CHR ''+'' then r else t | [] \<Rightarrow> []);
          run = takeWhile digit_or_underscore u;
          rest = dropWhile digit_or_underscore u;
          n = length (filter is_digit run)
      in case run of
           [] \<Rightarrow> Inl (InvalidLiteral s)
         | c # cs \<Rightarrow>
             if \<not> is_digit c then Inl (InvalidLiteral s)
             else
               (case int_digits (digit_val c) cs of
                  None \<Rightarrow> Inl (InvalidLiteral s)
                | Some v \<Rightarrow>
                    if 640 < n \<and> 0 < max_digits \<and> max_digits < n then Inl (DigitLimitExceeded n)
                    else if \<not> list_all is_space rest then Inl (InvalidLiteral s)
                    else Inr (if neg then - int v else int v)))"

definition py_int :: "nat \<Rightarrow> (string \<Rightarrow> string) \<Rightarrow> string \<Rightarrow> exn + int" where
  "py_int max_digits tab s = py_int_ascii max_digits s (to_ascii tab s)"

fun split_on :: "char \<Rightarrow> string \<Rightarrow> string list" where
  "split_on sep [] = [[]]"
| "split_on sep (c # cs) =
     (if c = sep then [] # split_on sep cs
      else (case split_on sep cs of p # ps \<Rightarrow> (c # p) # ps | [] \<Rightarrow> [[c]]))"

text \<open>
  \<open>a, b = map(int, parts)\<close>: the unpacking pulls two items from the lazy map, then asks
  for a third to see that there is none, so \<open>int\<close> runs on a third piece before
  "too many values" is raised.
\<close>

definition unpack_two_ints ::
  "nat \<Rightarrow> (string \<Rightarrow> string) \<Rightarrow> string list \<Rightarrow> exn + (int \<times> int)" where
  "unpack_two_ints max_digits tab parts =
     (case parts of
        [] \<Rightarrow> Inl (NotEnoughValues 0)
      | p # ps \<Rightarrow>
          (case py_int max_digits tab p of
             Inl e \<Rightarrow> Inl e
           | Inr a \<Rightarrow>
               (case ps of
                  [] \<Rightarrow> Inl (NotEnoughValues 1)
                | q # qs \<Rightarrow>
                    (case py_int max_digits tab q of
                       Inl e \<Rightarrow> Inl e
                     | Inr b \<Rightarrow>
                         (case qs of
                            [] \<Rightarrow> Inr (a, b)
                          | r # _ \<Rightarrow>
                              (case py_int max_digits tab r of
                                 Inl e \<Rightarrow> Inl e
                               | Inr _ \<Rightarrow> Inl TooManyValues))))))"

subsection \<open>Dates and times\<close>

record datetime =
  year :: int
  month :: int
  day :: int
  hour :: int
  minute :: int
  second :: int
  microsecond :: int

record timedelta =
  days :: int
  seconds :: int
  microseconds :: int

definition is_leap :: "int \<Rightarrow> bool" where
  "is_leap y = (y mod 4 = 0 \<and> (y mod 100 \<noteq> 0 \<or> y mod 400 = 0))"

definition days_in_month :: "int \<Rightarrow> int \<Rightarrow> int" where
  "days_in_month y m =
     (if m = 2 then (if is_leap y then 29 else 28)
      else if m = 4 \<or> m = 6 \<or> m = 9 \<or> m = 11 then 30 else 31)"

definition days_before_year :: "int \<Rightarrow> int" where
  "days_before_year y = (y - 1) * 365 + (y - 1) div 4 - (y - 1) div 100 + (y - 1) div 400"

definition days_before_month :: "int \<Rightarrow> int \<Rightarrow> int" where
  "days_before_month y m =
     [0, 31, 59, 90, 120, 151, 181, 212, 243, 273, 304, 334] ! nat (m - 1)
       + (if 2 < m \<and> is_leap y then 1 else 0)"

text \<open>The proleptic Gregorian ordinal: 0001-01-01 is day 1.\<close>

definition toordinal :: "datetime \<Rightarrow> int" where
  "toordinal d = days_before_year (year d) + days_before_month (year d) (month d) + day d"

definition valid_date :: "datetime \<Rightarrow> bool" where
  "valid_date d =
     (1 \<le> year d \<and> year d \<le> 9999 \<and> 1 \<le> month d \<and> month d \<le> 12 \<and>
      1 \<le> day d \<and> day d \<le> days_in_month (year d) (month d))"

text \<open>
  \<open>now - timedelta(days=1)\<close>: the calendar day before, the wall-clock time kept (an aware
  datetime does its arithmetic on the wall clock). OverflowError before 0001-01-01.
\<close>

definition minus_one_day :: "datetime \<Rightarrow> exn + datetime" where
  "minus_one_day d =
     (if 1 < day d then Inr (d\<lparr>day := day d - 1\<rparr>)
      else if 1 < month d then
        Inr (d\<lparr>month := month d - 1, day := days_in_month (year d) (month d - 1)\<rparr>)
      else if 1 < year d then Inr (d\<lparr>year := year d - 1, month := 12, day := 31\<rparr>)
      else Inl DateOutOfRange)"

text \<open>
  \<open>strftime("%m-%d-%Y")\<close>: month and day zero-padded to two digits; the year as the C
  library prints it, four digits from the year 1000 on.
\<close>

definition strftime_mdY :: "datetime \<Rightarrow> string" where
  "strftime_mdY d =
     zfill 2 (digits10 (nat (month d))) @ ''-'' @ zfill 2 (digits10 (nat (day d))) @ ''-''
       @ digits10 (nat (year d))"

text \<open>
  \<open>dt.replace(hour=h, minute=m, second=0, microsecond=0)\<close>: the arguments are first
  converted to C ints, then the fields are checked in order.
\<close>

definition fits_c_int :: "int \<Rightarrow> bool" where
  "fits_c_int v = (- 2147483648 \<le> v \<and> v \<le> 2147483647)"

definition replace_time :: "datetime \<Rightarrow> int \<Rightarrow> int \<Rightarrow> exn + datetime" where
  "replace_time d h m =
     (if \<not> fits_c_int h \<or> \<not> fits_c_int m then Inl CIntOverflow
      else if \<not> (0 \<le> h \<and> h \<le> 23) then Inl HourOutOfRange
      else if \<not> (0 \<le> m \<and> m \<le> 59) then Inl MinuteOutOfRange
      else Inr (d\<lparr>hour := h, minute := m, second := 0, microsecond := 0\<rparr>))"

text \<open>
  Two aware datetimes with the same tzinfo compare, and subtract, on their wall-clock
  fields.
\<close>

fun lex_le :: "int list \<Rightarrow> int list \<Rightarrow> bool" where
  "lex_le [] _ = True"
| "lex_le (x # xs) [] = False"
| "lex_le (x # xs) (y # ys) = (x < y \<or> (x = y \<and> lex_le xs ys))"

definition dt_fields :: "datetime \<Rightarrow> int list" where
  "dt_fields d = [year d, month d, day d, hour d, minute d, second d, microsecond d]"

definition dt_le :: "datetime \<Rightarrow> datetime \<Rightarrow> bool" where
  "dt_le a b = lex_le (dt_fields a) (dt_fields b)"

text \<open>The \<open>timedelta\<close> constructor normalises: seconds in 0..86399, microseconds in 0..999999.\<close>

definition mk_timedelta :: "int \<Rightarrow> int \<Rightarrow> int \<Rightarrow> timedelta" where
  "mk_timedelta d s us =
     (let total = (d * 86400 + s) * 1000000 + us
      in \<lparr>days = total div 86400000000,
          seconds = (total div 1000000) mod 86400,
          microseconds = total mod 1000000\<rparr>)"

definition dt_sub :: "datetime \<Rightarrow> datetime \<Rightarrow> timedelta" where
  "dt_sub a b =
     mk_timedelta (toordinal a - toordinal b)
       ((second a + minute a * 60 + hour a * 3600) - (second b + minute b * 60 + hour b * 3600))
       (microsecond a - microsecond b)"

subsection \<open>\<open>urllib.parse.urlencode\<close>\<close>

definition hex_char :: "nat \<Rightarrow> char" where
  "hex_char n = ''0123456789ABCDEF'' ! n"

definition is_unreserved :: "char \<Rightarrow> bool" where
  "is_unreserved c =
     (let n = (of_char c :: nat)
      in (48 \<le> n \<and> n \<le> 57) \<or> (65 \<le> n \<and> n \<le> 90) \<or> (97 \<le> n \<and> n \<le> 122)
         \<or> c = CHR ''_'' \<or> c = CHR ''.'' \<or> c = CHR ''-'' \<or> c = CHR ''~'')"

definition quote_byte :: "char \<Rightarrow> string" where
  "quote_byte c =
     (if is_unreserved c then [c]
      else if c = CHR '' '' then ''+''
      else [CHR ''%'', hex_char ((of_char c :: nat) div 16), hex_char ((of_char c :: nat) mod 16)])"

definition quote_plus :: "string \<Rightarrow> string" where
  "quote_plus s = concat (map quote_byte s)"

fun join_amp :: "string list \<Rightarrow> string" where
  "join_amp [] = []"
| "join_amp [p] = p"
| "join_amp (p # q # ps) = p @ ''&'' @ join_amp (q # ps)"

definition urlencode :: "(string \<times> string) list \<Rightarrow> string" where
  "urlencode params = join_amp (map (\<lambda>(k, v). quote_plus k @ ''='' @ quote_plus v) params)"

subsection \<open>The world outside the process, and what the process does to it\<close>

text \<open>
  \<open>str(v)\<close> of a value read from the environment: \<open>os.getenv\<close> gives a string or None.
\<close>

definition py_str :: "string option \<Rightarrow> string" where
  "py_str v = (case v of None \<Rightarrow> ''None'' | Some s \<Rightarrow> s)"

text \<open>Truthiness, as \<open>not value\<close> and \<open>if value:\<close> test it.\<close>

definition truthy_str :: "string option \<Rightarrow> bool" where
  "truthy_str v = (case v of None \<Rightarrow> False | Some s \<Rightarrow> s \<noteq> [])"

fun truthy_json :: "json \<Rightarrow> bool" where
  "truthy_json JNull = False"
| "truthy_json (JBool b) = b"
| "truthy_json (JInt i) = (i \<noteq> 0)"
| "truthy_json (JFloat (Finite m e)) = (m \<noteq> 0)"
| "truthy_json (JFloat (Infinite s)) = True"
| "truthy_json (JFloat NaN) = True"
| "truthy_json (JStr s) = (s \<noteq> [])"
| "truthy_json (JArr xs) = (xs \<noteq> [])"
| "truthy_json (JObj kvs) = (kvs \<noteq> [])"

datatype header_value =
    Plain string
  | OAuthToken json  \<comment> \<open>\<open>f"Zoho-oauthtoken {access_token}"\<close>\<close>

text \<open>What the log-submission \<open>urlopen\<close> block can meet.\<close>

datatype submit_reply =
    Response int string               \<comment> \<open>a 2xx status and the decoded body\<close>
  | HTTPError int string "string option"  \<comment> \<open>code, reason, body (None: not UTF-8)\<close>
  | OtherError string                 \<comment> \<open>any other exception, as text\<close>

text \<open>
  The environment, the time-zone database with the system clock (\<open>ZoneInfo(key)\<close> followed
  by \<open>datetime.now(tz)\<close>; None when \<open>ZoneInfo\<close> raises), and the two remote endpoints. The
  token endpoint answers an exception text (transport failure, undecodable or unparseable
  body) or the value \<open>json.loads\<close> returned. Of the interpreter: its limit on the digits
  of an integer literal (\<open>sys.get_int_max_str_digits()\<close>, 4300 by default, 0 for none)
  and its Unicode tables, as \<open>to_ascii\<close> takes them.
\<close>

record world =
  environ :: "string \<Rightarrow> string option"
  zone_now :: "string \<Rightarrow> datetime option"
  int_max_str_digits :: nat
  unicode_fold :: "string \<Rightarrow> string"
  token_endpoint :: "string \<Rightarrow> string \<Rightarrow> string + json"
  logs_endpoint :: "string \<Rightarrow> string \<Rightarrow> (string \<times> header_value) list \<Rightarrow> submit_reply"

datatype call =
    TokenCall string string                                \<comment> \<open>url, body\<close>
  | LogsCall string string "(string \<times> header_value) list"   \<comment> \<open>url, body, headers\<close>

text \<open>One constructor for each \<open>print\<close> of the script, with the values it interpolates.\<close>

datatype message =
    MissingEnv string          \<comment> \<open>Missing required environment variable: name\<close>
  | TokenError string          \<comment> \<open>Error getting access token: e\<close>
  | TokenFailed json           \<comment> \<open>Failed to get access token. Response: js\<close>
  | EndNotAfterStart           \<comment> \<open>End time must be after start time\<close>
  | LoggingTime string string  \<comment> \<open>Logging time for date=.., hours=..\<close>
  | ResponseStatus int         \<comment> \<open>Zoho response status: ..\<close>
  | ResponseBody string        \<comment> \<open>Zoho response body: ..\<close>
  | HTTPErrorLine int string   \<comment> \<open>HTTP Error: code reason\<close>
  | HTTPErrorBody string
  | ApiError string            \<comment> \<open>Error calling Zoho Projects API: e\<close>
  | Traceback exn              \<comment> \<open>the interpreter's report of an uncaught exception\<close>

datatype event = Net call | Stdout message | Stderr message

datatype abort = SysExit int | Uncaught exn

text \<open>A step of the script: the events it caused, then an abort or a value.\<close>

type_synonym 'a io = "event list \<times> (abort + 'a)"

definition return_io :: "'a \<Rightarrow> 'a io" where
  "return_io x = ([], Inr x)"

definition emit :: "event \<Rightarrow> unit io" where
  "emit e = ([e], Inr ())"

definition sys_exit :: "int \<Rightarrow> 'a io" where
  "sys_exit n = ([], Inl (SysExit n))"

definition raise_exn :: "exn \<Rightarrow> 'a io" where
  "raise_exn e = ([], Inl (Uncaught e))"

definition lift_exn :: "exn + 'a \<Rightarrow> 'a io" where
  "lift_exn r = (case r of Inl e \<Rightarrow> raise_exn e | Inr x \<Rightarrow> return_io x)"

definition bind_io :: "'a io \<Rightarrow> ('a \<Rightarrow> 'b io) \<Rightarrow> 'b io" where
  "bind_io m f =
     (case m of
        (t, Inl a) \<Rightarrow> (t, Inl a)
      | (t, Inr x) \<Rightarrow> (case f x of (t', r) \<Rightarrow> (t @ t', r)))"

subsection \<open>The script\<close>

text \<open>\<open>os.getenv(name, default)\<close>: the default stands in only for an unset variable.\<close>

definition os_getenv :: "world \<Rightarrow> string \<Rightarrow> string option \<Rightarrow> string option" where
  "os_getenv w name dflt = (case environ w name of Some v \<Rightarrow> Some v | None \<Rightarrow> dflt)"

definition get_env :: "world \<Rightarrow> string \<Rightarrow> string option \<Rightarrow> bool \<Rightarrow> (string option) io" where
  "get_env w name dflt required =
     (let val = os_getenv w name dflt
      in if required \<and> \<not> truthy_str val then
           bind_io (emit (Stderr (MissingEnv name))) (\<lambda>_. sys_exit 1)
         else return_io val)"

definition get_access_token :: "world \<Rightarrow> json io" where
  "get_access_token w =
     bind_io (get_env w ''ZOHO_CLIENT_ID'' None True) (\<lambda>client_id.
     bind_io (get_env w ''ZOHO_CLIENT_SECRET'' None True) (\<lambda>client_secret.
     bind_io (get_env w ''ZOHO_REFRESH_TOKEN'' None True) (\<lambda>refresh_token.
     bind_io (get_env w ''ZOHO_DC'' (Some ''accounts.zoho.in'') False) (\<lambda>dc.
       let token_url = ''https://'' @ py_str dc @ ''/oauth/v2/token'';
           params = [(''refresh_token'', py_str refresh_token),
                     (''client_id'', py_str client_id),
                     (''client_secret'', py_str client_secret),
                     (''grant_type'', ''refresh_token'')];
           data = urlencode params
       in bind_io (emit (Net (TokenCall token_url data))) (\<lambda>_.
          case token_endpoint w token_url data of
            Inl e \<Rightarrow> bind_io (emit (Stderr (TokenError e))) (\<lambda>_. sys_exit 1)
          | Inr js \<Rightarrow>
              (case js of
                 JObj kvs \<Rightarrow>
                   (case map_of kvs ''access_token'' of
                      None \<Rightarrow> bind_io (emit (Stderr (TokenFailed js))) (\<lambda>_. sys_exit 1)
                    | Some access_token \<Rightarrow>
                        if \<not> truthy_json access_token then
                          bind_io (emit (Stderr (TokenFailed js))) (\<lambda>_. sys_exit 1)
                        else return_io access_token)
               | _ \<Rightarrow> raise_exn (NoGetAttribute js)))))))"

definition calc_yesterday_hours :: "world \<Rightarrow> (string \<times> string) io" where
  "calc_yesterday_hours w =
     bind_io (get_env w ''ZOHO_TIMEZONE'' (Some ''Asia/Kolkata'') False) (\<lambda>tz_name.
     case zone_now w (py_str tz_name) of
       None \<Rightarrow> raise_exn (ZoneInfoFailed (py_str tz_name))
     | Some now \<Rightarrow>
     bind_io (lift_exn (minus_one_day now)) (\<lambda>yesterday.
       let date_str = strftime_mdY yesterday
       in
     bind_io (get_env w ''ZOHO_TIME_START'' (Some ''09:30'') False) (\<lambda>start_str.
     bind_io (get_env w ''ZOHO_TIME_END'' (Some ''18:30'') False) (\<lambda>end_str.
     bind_io (lift_exn (unpack_two_ints (int_max_str_digits w) (unicode_fold w)
                          (split_on (CHR '':'') (py_str start_str)))) (\<lambda>(start_hour, start_min).
     bind_io (lift_exn (unpack_two_ints (int_max_str_digits w) (unicode_fold w)
                          (split_on (CHR '':'') (py_str end_str)))) (\<lambda>(end_hour, end_min).
     bind_io (lift_exn (replace_time yesterday start_hour start_min)) (\<lambda>start_dt.
     bind_io (lift_exn (replace_time yesterday end_hour end_min)) (\<lambda>end_dt.
       if dt_le end_dt start_dt then
         bind_io (emit (Stderr EndNotAfterStart)) (\<lambda>_. sys_exit 1)
       else
         let diff = dt_sub end_dt start_dt;
             total_minutes = seconds diff div 60;
             hours = total_minutes div 60;
             minutes = total_minutes mod 60;
             hours_str = fmt_02d hours @ '':'' @ fmt_02d minutes
         in return_io (date_str, hours_str)))))))))"

definition add_time_log :: "world \<Rightarrow> json \<Rightarrow> unit io" where
  "add_time_log w access_token =
     bind_io (get_env w ''ZOHO_PORTAL_ID'' None True) (\<lambda>portal_id.
     bind_io (get_env w ''ZOHO_PROJECT_ID'' None True) (\<lambda>project_id.
     bind_io (get_env w ''ZOHO_TASK_ID'' None True) (\<lambda>task_id.
     bind_io (get_env w ''ZOHO_USER_ID'' None False) (\<lambda>user_id.
     bind_io (get_env w ''ZOHO_BILL_STATUS'' (Some ''Billable'') False) (\<lambda>bill_status.
     bind_io (get_env w ''ZOHO_NOTES_PREFIX'' (Some ''GitHub auto log'') False) (\<lambda>notes_prefix.
     bind_io (calc_yesterday_hours w) (\<lambda>(date_str, hours_str).
     bind_io (emit (Stdout (LoggingTime date_str hours_str))) (\<lambda>_.
       let base_url = ''https://projectsapi.zoho.com'';
           endpoint = ''/restapi/portal/'' @ py_str portal_id @ ''/projects/'' @ py_str project_id
                        @ ''/tasks/'' @ py_str task_id @ ''/logs/'';
           url = base_url @ endpoint;
           params = [(''date'', date_str),
                     (''bill_status'', py_str bill_status),
                     (''hours'', hours_str),
                     (''notes'', py_str notes_prefix @ '' - '' @ date_str)];
           params = (if truthy_str user_id then params @ [(''owner'', py_str user_id)] else params);
           data = urlencode params;
           headers = [(''Authorization'', OAuthToken access_token),
                      (''Content-Type'', Plain ''application/x-www-form-urlencoded;charset=UTF-8'')]
       in bind_io (emit (Net (LogsCall url data headers))) (\<lambda>_.
          case logs_endpoint w url data headers of
            Response status body \<Rightarrow>
              bind_io (emit (Stdout (ResponseStatus status))) (\<lambda>_.
              emit (Stdout (ResponseBody body)))
          | HTTPError code reason body \<Rightarrow>
              bind_io (emit (Stderr (HTTPErrorLine code reason))) (\<lambda>_.
              case body of
                None \<Rightarrow> raise_exn BodyNotDecodable
              | Some b \<Rightarrow> bind_io (emit (Stderr (HTTPErrorBody b))) (\<lambda>_. sys_exit 1))
          | OtherError e \<Rightarrow> bind_io (emit (Stderr (ApiError e))) (\<lambda>_. sys_exit 1))))))))))"

definition main :: "world \<Rightarrow> unit io" where
  "main w = bind_io (get_access_token w) (\<lambda>token. add_time_log w token)"

text \<open>
  The process: \<open>main()\<close> under the interpreter. An uncaught exception is reported as a
  traceback on stderr and ends the process with status 1; \<open>sys.exit(n)\<close> ends it with
  status n; falling off the end, with status 0.
\<close>

definition abort_status :: "abort \<Rightarrow> int" where
  "abort_status a = (case a of SysExit n \<Rightarrow> n | Uncaught e \<Rightarrow> 1)"

definition abort_report :: "abort \<Rightarrow> event list" where
  "abort_report a = (case a of SysExit n \<Rightarrow> [] | Uncaught e \<Rightarrow> [Stderr (Traceback e)])"

definition run_process :: "world \<Rightarrow> event list \<times> int" where
  "run_process w =
     (case main w of
        (t, Inl a) \<Rightarrow> (t @ abort_report a, abort_status a)
      | (t, Inr _) \<Rightarrow> (t, 0))"

definition exit_status :: "world \<Rightarrow> int" where
  "exit_status w = snd (run_process w)"

definition net_calls :: "event list \<Rightarrow> call list" where
  "net_calls t = concat (map (\<lambda>e. case e of Net c \<Rightarrow> [c] | _ \<Rightarrow> []) t)"

definition is_logs_call :: "call \<Rightarrow> bool" where
  "is_logs_call c = (case c of LogsCall _ _ _ \<Rightarrow> True | TokenCall _ _ \<Rightarrow> False)"

definition logs_calls :: "event list \<Rightarrow> call list" where
  "logs_calls t = filter is_logs_call (net_calls t)"

subsection \<open>The specification's vocabulary\<close>

text \<open>
  What the specification calls a zero-padded value: exactly two (four) decimal digits.
  A clock string \<open>HH:MM\<close> and a date string \<open>MM-DD-YYYY\<close> are built from them.
\<close>

definition two_digits :: "nat \<Rightarrow> string" where
  "two_digits n = [digit_char (n div 10), digit_char (n mod 10)]"

definition four_digits :: "nat \<Rightarrow> string" where
  "four_digits n = [digit_char (n div 1000), digit_char (n div 100 mod 10),
                    digit_char (n div 10 mod 10), digit_char (n mod 10)]"

definition clock_text :: "nat \<Rightarrow> nat \<Rightarrow> string" where
  "clock_text h m = two_digits h @ '':'' @ two_digits m"

definition date_text :: "datetime \<Rightarrow> string" where
  "date_text d = two_digits (nat (month d)) @ ''-'' @ two_digits (nat (day d)) @ ''-''
                   @ four_digits (nat (year d))"

text \<open>
  The fields of the submission body as the specification lists them: date, bill_status,
  hours, notes, and owner only for a non-empty user identifier.
\<close>

definition log_fields ::
  "string \<Rightarrow> string \<Rightarrow> string \<Rightarrow> string \<Rightarrow> string option \<Rightarrow> (string \<times> string) list" where
  "log_fields date_str bill_status hours_str notes owner =
     [(''date'', date_str), (''bill_status'', bill_status), (''hours'', hours_str),
      (''notes'', notes)]
     @ (if truthy_str owner then [(''owner'', py_str owner)] else [])"

text \<open>The names of the fields of a form-encoded body, in order.\<close>

definition form_keys :: "string \<Rightarrow> string list" where
  "form_keys body = map (takeWhile (\<lambda>c. c \<noteq> CHR ''='')) (split_on (CHR ''&'') body)"

text \<open>The settings read with \<open>required=True\<close>: three by the token step, three by the submitter.\<close>

definition token_settings :: "string list" where
  "token_settings = [''ZOHO_CLIENT_ID'', ''ZOHO_CLIENT_SECRET'', ''ZOHO_REFRESH_TOKEN'']"

definition submit_settings :: "string list" where
  "submit_settings = [''ZOHO_PORTAL_ID'', ''ZOHO_PROJECT_ID'', ''ZOHO_TASK_ID'']"

definition required_settings :: "string list" where
  "required_settings = token_settings @ submit_settings"

text \<open>The request the token step sends, once its three settings are there.\<close>

definition token_request_url :: "world \<Rightarrow> string" where
  "token_request_url w =
     ''https://'' @ py_str (os_getenv w ''ZOHO_DC'' (Some ''accounts.zoho.in'')) @ ''/oauth/v2/token''"

definition token_request_body :: "world \<Rightarrow> string" where
  "token_request_body w =
     urlencode [(''refresh_token'', py_str (environ w ''ZOHO_REFRESH_TOKEN'')),
                (''client_id'', py_str (environ w ''ZOHO_CLIENT_ID'')),
                (''client_secret'', py_str (environ w ''ZOHO_CLIENT_SECRET'')),
                (''grant_type'', ''refresh_token'')]"

definition token_reply :: "world \<Rightarrow> string + json" where
  "token_reply w = token_endpoint w (token_request_url w) (token_request_body w)"

definition token_ready :: "world \<Rightarrow> bool" where
  "token_ready w = list_all (\<lambda>n. truthy_str (environ w n)) token_settings"

definition submit_ready :: "world \<Rightarrow> bool" where
  "submit_ready w = list_all (\<lambda>n. truthy_str (environ w n)) submit_settings"

text \<open>
  An integer literal, as the language describes it: after whitespace is stripped from both
  ends and one sign is taken off, what is left is not empty, is made of digits and
  underscores, begins and ends with a digit and has no two underscores in a row. Its value
  is that of its digits; its sign is the sign it starts with.
\<close>

definition rstrip :: "string \<Rightarrow> string" where
  "rstrip s = rev (dropWhile is_space (rev s))"

definition strip :: "string \<Rightarrow> string" where
  "strip s = rstrip (dropWhile is_space s)"

definition unsigned :: "string \<Rightarrow> string" where
  "unsigned s = (case s of c # r \<Rightarrow> if c = CHR ''-'' \<or> c = CHR ''+'' then r else s | [] \<Rightarrow> [])"

definition int_literal :: "string \<Rightarrow> bool" where
  "int_literal s =
     (let body = unsigned (strip s)
      in body \<noteq> [] \<and> list_all digit_or_underscore body \<and> is_digit (hd body) \<and>
         is_digit (last body) \<and> (CHR ''_'', CHR ''_'') \<notin> set (zip body (tl body)))"

definition digits_value :: "string \<Rightarrow> nat" where
  "digits_value s = foldl (\<lambda>a c. a * 10 + digit_val c) 0 (filter is_digit s)"

definition literal_value :: "string \<Rightarrow> int" where
  "literal_value s =
     (if (case strip s of c # _ \<Rightarrow> c = CHR ''-'' | [] \<Rightarrow> False) then - int (digits_value s)
      else int (digits_value s))"

definition over_limit :: "nat \<Rightarrow> string \<Rightarrow> bool" where
  "over_limit max_digits s =
     (640 < length (filter is_digit s) \<and> 0 < max_digits \<and> max_digits < length (filter is_digit s))"

text \<open>
  The clock strings the script gets through: two pieces around one colon, each an integer
  literal within the interpreter's digit limit (Unicode digits and spaces read as their
  ASCII counterparts), the first with a value in 0..23 and the second in 0..59.
\<close>

definition piece_text :: "world \<Rightarrow> string \<Rightarrow> string" where
  "piece_text w p = to_ascii (unicode_fold w) p"

definition piece_ok :: "world \<Rightarrow> string \<Rightarrow> bool" where
  "piece_ok w p = (int_literal (piece_text w p) \<and> \<not> over_limit (int_max_str_digits w) (piece_text w p))"

definition clock_ok :: "world \<Rightarrow> string \<Rightarrow> bool" where
  "clock_ok w s =
     (case split_on (CHR '':'') s of
        [p, q] \<Rightarrow>
          piece_ok w p \<and> piece_ok w q \<and>
          0 \<le> literal_value (piece_text w p) \<and> literal_value (piece_text w p) \<le> 23 \<and>
          0 \<le> literal_value (piece_text w q) \<and> literal_value (piece_text w q) \<le> 59
      | _ \<Rightarrow> False)"

text \<open>The first of a list of settings that is unset or empty.\<close>

definition first_unset :: "world \<Rightarrow> string list \<Rightarrow> string option" where
  "first_unset w names = find (\<lambda>n. \<not> truthy_str (environ w n)) names"

text \<open>The settings of the time window, with the defaults the script gives them.\<close>

definition tz_setting :: "world \<Rightarrow> string" where
  "tz_setting w = py_str (os_getenv w ''ZOHO_TIMEZONE'' (Some ''Asia/Kolkata''))"

definition start_setting :: "world \<Rightarrow> string" where
  "start_setting w = py_str (os_getenv w ''ZOHO_TIME_START'' (Some ''09:30''))"

definition end_setting :: "world \<Rightarrow> string" where
  "end_setting w = py_str (os_getenv w ''ZOHO_TIME_END'' (Some ''18:30''))"

subsection \<open>A concrete run\<close>

definition example_env :: "string \<Rightarrow> string option" where
  "example_env =
     map_of [(''ZOHO_CLIENT_ID'', ''cid''), (''ZOHO_CLIENT_SECRET'', ''sec''),
             (''ZOHO_REFRESH_TOKEN'', ''rt''), (''ZOHO_PORTAL_ID'', ''p1''),
             (''ZOHO_PROJECT_ID'', ''p2''), (''ZOHO_TASK_ID'', ''t3'')]"

definition example_now :: datetime where
  "example_now = \<lparr>year = 2026, month = 11, day = 3, hour = 10, minute = 15, second = 7,
                   microsecond = 42\<rparr>"

definition example_world :: world where
  "example_world =
     \<lparr>environ = example_env,
      zone_now = (\<lambda>k. if k = ''Asia/Kolkata'' then Some example_now else None),
      int_max_str_digits = 4300,
      unicode_fold = (\<lambda>run. ''?''),
      token_endpoint = (\<lambda>_ _. Inr (JObj [(''access_token'', JStr ''tok'')])),
      logs_endpoint = (\<lambda>_ _ _. Response 200 ''ok'')\<rparr>"

text \<open>The same run with the window reversed, with a setting missing, and so on.\<close>

definition reversed_world :: world where
  "reversed_world =
     example_world\<lparr>environ := example_env(''ZOHO_TIME_START'' \<mapsto> ''18:30'',
                                            ''ZOHO_TIME_END'' \<mapsto> ''09:30'')\<rparr>"

definition no_portal_world :: world where
  "no_portal_world = example_world\<lparr>environ := example_env(''ZOHO_PORTAL_ID'' := None)\<rparr>"

definition no_secret_world :: world where
  "no_secret_world = example_world\<lparr>environ := example_env(''ZOHO_CLIENT_SECRET'' := None)\<rparr>"

definition empty_secret_world :: world where
  "empty_secret_world = example_world\<lparr>environ := example_env(''ZOHO_CLIENT_SECRET'' \<mapsto> [])\<rparr>"




definition empty_portal_world :: world where
  "empty_portal_world = example_world\<lparr>environ := example_env(''ZOHO_PORTAL_ID'' \<mapsto> [])\<rparr>"

definition empty_portal_offline_world :: world where
  "empty_portal_offline_world =
     empty_portal_world\<lparr>token_endpoint := (\<lambda>_ _. Inl ''timed out'')\<rparr>"


definition empty_user_world :: world where
  "empty_user_world = example_world\<lparr>environ := example_env(''ZOHO_USER_ID'' \<mapsto> [])\<rparr>"

definition owner_world :: world where
  "owner_world = example_world\<lparr>environ := example_env(''ZOHO_USER_ID'' \<mapsto> ''u42'')\<rparr>"

definition error_reply_world :: world where
  "error_reply_world =
     example_world\<lparr>token_endpoint := (\<lambda>_ _. Inr (JObj [(''error'', JStr ''invalid_code'')]))\<rparr>"

definition empty_token_world :: world where
  "empty_token_world =
     example_world\<lparr>token_endpoint := (\<lambda>_ _. Inr (JObj [(''access_token'', JStr [])]))\<rparr>"

section \<open>Properties\<close>

subsection \<open>Decimal numerals and clock strings\<close>

lemma of_char_digit_char: "n < 10 \<Longrightarrow> (of_char (digit_char n) :: nat) = 48 + n"
  by (simp add: digit_char_def)

lemma digit_char_props:
  assumes "n < 10"
  shows "is_digit (digit_char n)" "digit_val (digit_char n) = n" "\<not> is_space (digit_char n)"
    "digit_char n \<noteq> CHR '':''" "digit_char n \<noteq> CHR ''-''" "digit_char n \<noteq> CHR ''+''"
    "digit_char n \<noteq> CHR ''_''"
  using assms of_char_digit_char [OF assms]
  by (auto simp: is_digit_def digit_val_def is_space_def)

lemma digit_char_0: "CHR ''0'' = digit_char 0"
  by code_simp

lemma split_on_clock_text:
  assumes "h < 100" "m < 100"
  shows "split_on (CHR '':'') (clock_text h m) = [two_digits h, two_digits m]"
  using assms by (simp add: clock_text_def two_digits_def digit_char_props)

lemma digit_char_ascii: "n < 10 \<Longrightarrow> \<not> non_ascii (digit_char n)"
  by (simp add: non_ascii_def of_char_digit_char)

lemma to_ascii_two_digits: "n < 100 \<Longrightarrow> to_ascii tab (two_digits n) = two_digits n"
  by (simp add: two_digits_def digit_char_ascii)

lemma py_int_two_digits: "n < 100 \<Longrightarrow> py_int max_digits tab (two_digits n) = Inr (int n)"
  unfolding py_int_def to_ascii_two_digits
  by (simp add: py_int_ascii_def two_digits_def digit_char_props digit_or_underscore_def)

lemma unpack_clock_text:
  "h < 100 \<Longrightarrow> m < 100 \<Longrightarrow>
   unpack_two_ints max_digits tab (split_on (CHR '':'') (clock_text h m)) = Inr (int h, int m)"
  by (simp add: split_on_clock_text unpack_two_ints_def py_int_two_digits)

lemma digits10_digit: "n < 10 \<Longrightarrow> digits10 n = [digit_char n]"
  by (simp add: digits10.simps [of n])

lemma digits10_step: "10 \<le> n \<Longrightarrow> digits10 n = digits10 (n div 10) @ [digit_char (n mod 10)]"
  by (simp add: digits10.simps [of n])

lemma digits10_two:
  assumes "n < 100" shows "zfill 2 (digits10 n) = two_digits n"
proof (cases "n < 10")
  case True
  then show ?thesis by (simp add: digits10_digit zfill_def two_digits_def digit_char_0)
next
  case False
  moreover from assms have "n div 10 < 10" by arith
  ultimately show ?thesis by (simp add: digits10_digit digits10_step zfill_def two_digits_def)
qed

lemma fmt_02d_two: "n < 100 \<Longrightarrow> fmt_02d (int n) = two_digits n"
  by (simp add: fmt_02d_def digits10_two)

subsection \<open>Integer literals\<close>

lemma underscore_not_digit [simp]: "\<not> is_digit (CHR ''_'')"
  by (simp add: is_digit_def)

lemma digit_not_space: "is_digit c \<Longrightarrow> \<not> is_space c"
  by (auto simp: is_digit_def is_space_def)

lemma dou_not_space: "digit_or_underscore c \<Longrightarrow> \<not> is_space c"
  by (auto simp: digit_or_underscore_def is_digit_def is_space_def)

lemma sign_not_space [simp]: "\<not> is_space (CHR ''-'')" "\<not> is_space (CHR ''+'')"
  by (simp_all add: is_space_def)

lemma sign_not_digit [simp]: "\<not> is_digit (CHR ''-'')" "\<not> is_digit (CHR ''+'')"
  by (simp_all add: is_digit_def)

lemma int_digits_run:
  "list_all digit_or_underscore cs \<Longrightarrow>
   int_digits acc cs =
     (if (cs = [] \<or> is_digit (last cs)) \<and> (CHR ''_'', CHR ''_'') \<notin> set (zip cs (tl cs))
      then Some (foldl (\<lambda>a c. a * 10 + digit_val c) acc (filter is_digit cs)) else None)"
proof (induction acc cs rule: int_digits.induct)
  case (1 acc)
  then show ?case by simp
next
  case (2 acc c)
  then show ?case by simp
next
  case (3 acc c d cs)
  then show ?case
    by (cases cs) (auto simp: digit_or_underscore_def)
qed

lemma rstrip_split: "\<exists>r. list_all is_space r \<and> x = rstrip x @ r"
proof -
  have "x = rev (takeWhile is_space (rev x) @ dropWhile is_space (rev x))" by simp
  then have "x = rstrip x @ rev (takeWhile is_space (rev x))"
    by (simp add: rstrip_def del: takeWhile_dropWhile_id)
  moreover have "list_all is_space (rev (takeWhile is_space (rev x)))"
    by (simp add: list_all_iff) (metis set_takeWhileD)
  ultimately show ?thesis by blast
qed

lemma rstrip_append_spaces:
  assumes "list_all is_space r" "y = [] \<or> \<not> is_space (last y)"
  shows "rstrip (y @ r) = y"
proof -
  from assms(1) have "dropWhile is_space (rev r @ rev y) = dropWhile is_space (rev y)"
    by (simp add: dropWhile_append list_all_iff)
  moreover from assms(2) have "dropWhile is_space (rev y) = rev y"
    by (cases y rule: rev_cases) auto
  ultimately show ?thesis by (simp add: rstrip_def)
qed

lemma rstrip_Cons: "\<not> is_space h \<Longrightarrow> rstrip (h # x) = h # rstrip x"
  by (simp add: rstrip_def dropWhile_append)

lemma rstrip_Nil_iff: "rstrip x = [] \<longleftrightarrow> list_all is_space x"
  by (simp add: rstrip_def dropWhile_eq_Nil_conv list_all_iff)

lemma spaces_no_run:
  "list_all is_space r \<Longrightarrow> takeWhile digit_or_underscore r = [] \<and> dropWhile digit_or_underscore r = r"
  using dou_not_space by (cases r) auto

lemma filter_digit_spaces: "list_all is_space r \<Longrightarrow> filter is_digit r = []"
  using digit_not_space by (induction r) auto

lemma foldl_digits_start:
  "foldl (\<lambda>a c. a * 10 + digit_val c) (digit_val c) xs
     = foldl (\<lambda>a c. a * 10 + digit_val c) 0 (c # xs)"
  by simp

lemma py_int_ascii_literal:
  assumes "int_literal a"
  shows "py_int_ascii m s a =
           (if over_limit m a then Inl (DigitLimitExceeded (length (filter is_digit a)))
            else Inr (literal_value a))"
proof -
  define t where "t = dropWhile is_space a"
  define core where "core = rstrip t"
  define body where "body = unsigned core"
  have sa: "strip a = core" by (simp add: strip_def core_def t_def)
  from assms have b: "body \<noteq> []" "list_all digit_or_underscore body" "is_digit (hd body)"
    "is_digit (last body)" "(CHR ''_'', CHR ''_'') \<notin> set (zip body (tl body))"
    by (simp_all add: int_literal_def Let_def sa body_def)
  have core_ne: "core \<noteq> []" using b(1) by (auto simp: body_def unsigned_def)
  obtain r where r: "list_all is_space r" "t = core @ r"
    using rstrip_split [of t] by (auto simp: core_def)
  have u: "(case t of c # r \<Rightarrow> if c = CHR ''-'' \<or> c = CHR ''+'' then r else t | [] \<Rightarrow> []) = body @ r"
    using core_ne r(2) by (cases core) (auto simp: body_def unsigned_def)
  have run: "takeWhile digit_or_underscore (body @ r) = body"
    "dropWhile digit_or_underscore (body @ r) = r"
    using b(2) spaces_no_run [OF r(1)]
    by (simp_all add: takeWhile_append2 dropWhile_append2 list_all_iff)
  obtain c cs where body: "body = c # cs" using b(1) by (cases body) auto
  have dc: "is_digit c" using b(3) by (simp add: body)
  have cs: "list_all digit_or_underscore cs" using b(2) by (simp add: body)
  have shape: "(cs = [] \<or> is_digit (last cs)) \<and> (CHR ''_'', CHR ''_'') \<notin> set (zip cs (tl cs))"
    using b(4,5) by (cases cs) (auto simp: body)
  have idg: "int_digits (digit_val c) cs = Some (digits_value body)"
    using dc by (simp add: int_digits_run [OF cs] shape digits_value_def body)
  have a: "a = takeWhile is_space a @ t" by (simp add: t_def)
  have "filter is_digit (takeWhile is_space a) = []"
    by (rule filter_digit_spaces) (simp add: list_all_iff, metis set_takeWhileD)
  moreover have "filter is_digit core = filter is_digit body"
    using core_ne by (cases core) (auto simp: body_def unsigned_def)
  ultimately have fa: "filter is_digit a = filter is_digit body"
    using filter_digit_spaces [OF r(1)] by (subst a) (simp add: r(2))
  have neg: "(case t of c # x \<Rightarrow> c = CHR ''-'' | [] \<Rightarrow> False)
               = (case core of c # x \<Rightarrow> c = CHR ''-'' | [] \<Rightarrow> False)"
    using core_ne r(2) by (cases core) auto
  have dv: "digits_value a = digits_value body" by (simp add: digits_value_def fa)
  note u' = u [unfolded body] and run' = run [unfolded body] and idg' = idg [unfolded body]
    and fa' = fa [unfolded body] and dv' = dv [unfolded body]
  have n: "length (filter is_digit (c # cs)) = length (filter is_digit a)" by (simp add: fa')
  show ?thesis
    unfolding py_int_ascii_def t_def [symmetric] Let_def u' run' n
    using dc r(1)
    by (simp add: idg' neg over_limit_def literal_value_def sa dv')
qed



lemma py_int_ascii_Inr_literal:
  assumes "py_int_ascii m s a = Inr v"
  shows "int_literal a"
proof -
  define t where "t = dropWhile is_space a"
  define u where "u = unsigned t"
  define run where "run = takeWhile digit_or_underscore u"
  define rest where "rest = dropWhile digit_or_underscore u"
  have p: "py_int_ascii m s a =
     (case run of
        [] \<Rightarrow> Inl (InvalidLiteral s)
      | c # cs \<Rightarrow>
          if \<not> is_digit c then Inl (InvalidLiteral s)
          else
            (case int_digits (digit_val c) cs of
               None \<Rightarrow> Inl (InvalidLiteral s)
             | Some v \<Rightarrow>
                 if 640 < length (filter is_digit run) \<and> 0 < m \<and> m < length (filter is_digit run)
                 then Inl (DigitLimitExceeded (length (filter is_digit run)))
                 else if \<not> list_all is_space rest then Inl (InvalidLiteral s)
                 else Inr (if (case t of c # _ \<Rightarrow> c = CHR ''-'' | [] \<Rightarrow> False)
                           then - int v else int v)))"
    unfolding py_int_ascii_def Let_def run_def rest_def u_def unsigned_def t_def ..
  from assms obtain c cs n where run: "run = c # cs" and dc: "is_digit c"
    and idg: "int_digits (digit_val c) cs = Some n" and rest: "list_all is_space rest"
    unfolding p by (auto split: list.splits option.splits if_splits)
  have all: "list_all digit_or_underscore run"
    unfolding run_def by (simp add: list_all_iff) (metis set_takeWhileD)
  then have cs: "list_all digit_or_underscore cs" by (simp add: run)
  from idg have shape: "(cs = [] \<or> is_digit (last cs)) \<and>
      (CHR ''_'', CHR ''_'') \<notin> set (zip cs (tl cs))"
    by (simp add: int_digits_run [OF cs] split: if_splits)
  have last: "is_digit (last run)" using shape dc by (auto simp: run)
  have zip: "(CHR ''_'', CHR ''_'') \<notin> set (zip run (tl run))"
    using shape dc by (cases cs) (auto simp: run)
  have ur: "u = run @ rest" by (simp add: run_def rest_def)
  have rr: "rstrip u = run"
    unfolding ur using rest last by (intro rstrip_append_spaces) (auto dest: digit_not_space)
  have t: "t = [] \<or> \<not> is_space (hd t)"
    unfolding t_def by (metis hd_dropWhile)
  have tne: "t \<noteq> []" using ur run by (auto simp: u_def unsigned_def)
  then obtain h t' where ht: "t = h # t'" by (cases t) auto
  with t have h: "\<not> is_space h" by simp
  have body: "unsigned (rstrip t) = run"
  proof (cases "h = CHR ''-'' \<or> h = CHR ''+''")
    case True
    then have "u = t'" by (auto simp: u_def unsigned_def ht)
    with rr True h show ?thesis by (auto simp: ht rstrip_Cons unsigned_def)
  next
    case False
    then have "u = t" by (simp add: u_def unsigned_def ht)
    with rr have "rstrip t = run" by simp
    moreover have "unsigned run = run" using dc by (auto simp: run unsigned_def)
    ultimately show ?thesis by simp
  qed
  show ?thesis
    unfolding int_literal_def Let_def strip_def t_def [symmetric] body
    using all dc last zip by (simp add: run)
qed

lemma py_int_Inr_iff:
  "py_int m tab s = Inr v \<longleftrightarrow>
     int_literal (to_ascii tab s) \<and> \<not> over_limit m (to_ascii tab s) \<and>
     v = literal_value (to_ascii tab s)"
  using py_int_ascii_Inr_literal [of m s "to_ascii tab s" v]
    py_int_ascii_literal [of "to_ascii tab s" m s]
  by (auto simp: py_int_def split: if_splits)


subsection \<open>The calendar\<close>

lemma digits10_four:
  assumes "1000 \<le> n" "n < 10000" shows "digits10 n = four_digits n"
proof -
  have a: "10 \<le> n" "10 \<le> n div 10" "10 \<le> n div 10 div 10" "n div 10 div 10 div 10 < 10"
    using assms by arith+
  have b: "n div 10 div 10 div 10 = n div 1000" "n div 10 div 10 mod 10 = n div 100 mod 10"
    by (simp_all add: div_mult2_eq [symmetric])
  show ?thesis
    using a by (simp add: digits10_step digits10_digit four_digits_def b)
qed

lemma days_in_month_le: "days_in_month y m \<le> 31"
  by (simp add: days_in_month_def)

lemma days_in_month_ge: "28 \<le> days_in_month y m"
  by (simp add: days_in_month_def)

lemma strftime_mdY_date_text:
  assumes "valid_date d" "1000 \<le> year d"
  shows "strftime_mdY d = date_text d"
proof -
  from assms(1) have m: "nat (month d) < 100" and y: "nat (year d) < 10000"
    by (auto simp: valid_date_def)
  from assms(1) days_in_month_le [of "year d" "month d"] have dd: "nat (day d) < 100"
    by (auto simp: valid_date_def)
  from assms(2) have y': "1000 \<le> nat (year d)" by simp
  show ?thesis
    by (simp add: strftime_mdY_def date_text_def digits10_two [OF m] digits10_two [OF dd]
        digits10_four [OF y' y])
qed

lemma days_before_month_step:
  assumes "1 < m" "m \<le> 12"
  shows "days_before_month y m = days_before_month y (m - 1) + days_in_month y (m - 1)"
proof -
  from assms have "m = 2 \<or> m = 3 \<or> m = 4 \<or> m = 5 \<or> m = 6 \<or> m = 7 \<or> m = 8 \<or> m = 9 \<or> m = 10
      \<or> m = 11 \<or> m = 12" by arith
  then show ?thesis
    by (elim disjE) (simp_all add: days_before_month_def days_in_month_def)
qed

lemma div_pred:
  fixes y k :: int
  assumes "0 < k"
  shows "y div k = (y - 1) div k + (if y mod k = 0 then 1 else 0)"
proof (cases "y mod k = 0")
  case True
  have "k * (y div k) + y mod k = y" by (rule mult_div_mod_eq)
  with True have "y - 1 = k * (y div k - 1) + (k - 1)" by (simp add: algebra_simps)
  then have "(y - 1) div k = y div k - 1"
    by (rule int_div_pos_eq) (use assms in simp_all)
  with True show ?thesis by simp
next
  case False
  have "k * (y div k) + y mod k = y" by (rule mult_div_mod_eq)
  then have e: "y - 1 = k * (y div k) + (y mod k - 1)" by simp
  have "0 \<le> y mod k" "y mod k < k" using assms by simp_all
  with False have "0 \<le> y mod k - 1" "y mod k - 1 < k" by simp_all
  with e have "(y - 1) div k = y div k" by (rule int_div_pos_eq)
  with False show ?thesis by simp
qed

lemma mod_400_100: "(z::int) mod 400 = 0 \<Longrightarrow> z mod 100 = 0"
  by (simp add: mod_eq_0_iff_dvd) (rule dvd_trans [of 100 400], simp_all)

lemma mod_100_4: "(z::int) mod 100 = 0 \<Longrightarrow> z mod 4 = 0"
  by (simp add: mod_eq_0_iff_dvd) (rule dvd_trans [of 4 100], simp_all)

lemma days_before_year_step:
  "days_before_year (y + 1) = days_before_year y + 365 + (if is_leap y then 1 else 0)"
proof -
  define a b c :: int where "a = (if y mod 4 = 0 then 1 else 0)"
    and "b = (if y mod 100 = 0 then 1 else 0)" and "c = (if y mod 400 = 0 then 1 else 0)"
  have d: "y div 4 = (y - 1) div 4 + a" "y div 100 = (y - 1) div 100 + b"
    "y div 400 = (y - 1) div 400 + c"
    unfolding a_def b_def c_def by (rule div_pred, simp)+
  have l: "(if is_leap y then 1 else 0) = a - b + c"
    using mod_400_100 [of y] mod_100_4 [of y]
    unfolding a_def b_def c_def is_leap_def by (cases "y mod 400 = 0"; cases "y mod 100 = 0"; cases "y mod 4 = 0") simp_all
  have "days_before_year (y + 1) = y * 365 + y div 4 - y div 100 + y div 400"
    by (simp add: days_before_year_def)
  also have "\<dots> = days_before_year y + 365 + (a - b + c)"
    unfolding days_before_year_def d by (simp add: algebra_simps)
  finally show ?thesis unfolding l .
qed

lemma minus_one_day_defined: "1 < year d \<Longrightarrow> \<exists>y. minus_one_day d = Inr y"
  by (simp add: minus_one_day_def)

lemma minus_one_day_valid:
  assumes "valid_date d" "minus_one_day d = Inr y"
  shows "valid_date y"
  using assms days_in_month_ge [of "year d" "month d - 1"]
  by (auto simp: minus_one_day_def valid_date_def days_in_month_def [of _ 12] split: if_splits)

lemma minus_one_day_ordinal:
  assumes "valid_date d" "minus_one_day d = Inr y"
  shows "toordinal y = toordinal d - 1"
proof -
  consider (a) "1 < day d" | (b) "day d = 1" "1 < month d" | (c) "day d = 1" "month d = 1" "1 < year d"
    | (d) "day d = 1" "month d = 1" "year d = 1"
    using assms(1) unfolding valid_date_def by atomize_elim arith
  then show ?thesis
  proof cases
    case a
    with assms(2) show ?thesis by (auto simp: minus_one_day_def toordinal_def)
  next
    case b
    with assms show ?thesis
      by (auto simp: minus_one_day_def toordinal_def valid_date_def days_before_month_step [of "month d"])
  next
    case c
    have "days_before_year (year d - 1 + 1) = days_before_year (year d - 1) + 365 + (if is_leap (year d - 1) then 1 else 0)"
      by (rule days_before_year_step)
    with c assms show ?thesis
      by (auto simp: minus_one_day_def toordinal_def days_before_month_def)
  next
    case d
    with assms(2) show ?thesis by (simp add: minus_one_day_def)
  qed
qed

subsection \<open>Steps of the script\<close>

lemma bind_io_return [simp]: "bind_io (return_io x) f = f x"
  by (simp add: bind_io_def return_io_def split: prod.splits)

lemma bind_io_emit [simp]: "bind_io (emit e) f = (e # fst (f ()), snd (f ()))"
  by (simp add: bind_io_def emit_def split: prod.splits)

lemma bind_io_abort [simp]: "bind_io (t, Inl a) f = (t, Inl a)"
  by (simp add: bind_io_def)

lemma bind_io_sys_exit [simp]: "bind_io (sys_exit n) f = sys_exit n"
  by (simp add: bind_io_def sys_exit_def)

lemma bind_io_raise_exn [simp]: "bind_io (raise_exn e) f = raise_exn e"
  by (simp add: bind_io_def raise_exn_def)

lemma lift_exn_simps [simp]:
  "lift_exn (Inr x) = return_io x" "lift_exn (Inl e) = raise_exn e"
  by (simp_all add: lift_exn_def)

lemma get_env_optional [simp]: "get_env w name dflt False = return_io (os_getenv w name dflt)"
  by (simp add: get_env_def)

lemma get_env_required:
  "get_env w name dflt True =
     (if truthy_str (os_getenv w name dflt) then return_io (os_getenv w name dflt)
      else ([Stderr (MissingEnv name)], Inl (SysExit 1)))"
  by (simp add: get_env_def sys_exit_def)

lemma py_str_Some [simp]: "py_str (Some s) = s"
  by (simp add: py_str_def)

lemma toordinal_replace_time:
  "replace_time y h m = Inr d \<Longrightarrow> toordinal d = toordinal y"
  by (auto simp: replace_time_def toordinal_def split: if_splits)

lemma window_minutes:
  fixes sh sm eh em :: nat and y :: datetime
  assumes "sh < 24" "sm < 60" "eh < 24" "em < 60" "sh * 60 + sm < eh * 60 + em"
  defines "s \<equiv> y\<lparr>hour := int sh, minute := int sm, second := 0, microsecond := 0\<rparr>"
    and "e \<equiv> y\<lparr>hour := int eh, minute := int em, second := 0, microsecond := 0\<rparr>"
  shows "replace_time y (int sh) (int sm) = Inr s" "replace_time y (int eh) (int em) = Inr e"
    "\<not> dt_le e s" "seconds (dt_sub e s) div 60 = int ((eh * 60 + em) - (sh * 60 + sm))"
proof -
  show "replace_time y (int sh) (int sm) = Inr s" "replace_time y (int eh) (int em) = Inr e"
    using assms(1-4) by (simp_all add: replace_time_def fits_c_int_def s_def e_def)
  show "\<not> dt_le e s"
    using assms(1-5) by (auto simp: dt_le_def dt_fields_def s_def e_def)
  have t: "toordinal e = toordinal s" by (simp add: toordinal_def s_def e_def)
  define S :: int where "S = (int em * 60 + int eh * 3600) - (int sm * 60 + int sh * 3600)"
  have S: "0 \<le> S" "S < 86400" "S = 60 * int ((eh * 60 + em) - (sh * 60 + sm))"
    using assms(1-5) unfolding S_def by simp_all
  have "seconds (dt_sub e s) = S mod 86400"
    unfolding dt_sub_def t by (simp add: mk_timedelta_def S_def s_def e_def mult.commute)
  also have "\<dots> = S" using S(1,2) by simp
  finally show "seconds (dt_sub e s) div 60 = int ((eh * 60 + em) - (sh * 60 + sm))"
    by (simp add: S(3))
qed

lemma bind_io_Inr [simp]: "bind_io (t, Inr x) f = (t @ fst (f x), snd (f x))"
  by (simp add: bind_io_def split: prod.splits)

lemmas io_defs = return_io_def raise_exn_def sys_exit_def emit_def lift_exn_def

lemma calc_yesterday_hours_cases:
  "(\<exists>r. calc_yesterday_hours w = ([], Inr r)) \<or>
   (\<exists>e. calc_yesterday_hours w = ([], Inl (Uncaught e))) \<or>
   calc_yesterday_hours w = ([Stderr EndNotAfterStart], Inl (SysExit 1))"
  unfolding calc_yesterday_hours_def
  by (simp add: io_defs Let_def split: option.split sum.split prod.split)

lemma get_access_token_cases:
  "(\<exists>tok u d. get_access_token w = ([Net (TokenCall u d)], Inr tok) \<and> truthy_json tok) \<or>
   (\<exists>t a. get_access_token w = (t, Inl a) \<and> abort_status a = 1 \<and> logs_calls t = [])"
  unfolding get_access_token_def
  by (simp add: io_defs get_env_required Let_def abort_status_def logs_calls_def net_calls_def
      is_logs_call_def split: option.split sum.split json.split)

lemma submit_ready_iff:
  "submit_ready w \<longleftrightarrow> truthy_str (environ w ''ZOHO_PORTAL_ID'') \<and>
     truthy_str (environ w ''ZOHO_PROJECT_ID'') \<and> truthy_str (environ w ''ZOHO_TASK_ID'')"
  by (simp add: submit_ready_def submit_settings_def)

lemma token_ready_iff:
  "token_ready w \<longleftrightarrow> truthy_str (environ w ''ZOHO_CLIENT_ID'') \<and>
     truthy_str (environ w ''ZOHO_CLIENT_SECRET'') \<and> truthy_str (environ w ''ZOHO_REFRESH_TOKEN'')"
  by (simp add: token_ready_def token_settings_def)

lemma os_getenv_None [simp]: "os_getenv w name None = environ w name"
  by (simp add: os_getenv_def split: option.split)

lemma add_time_log_early:
  assumes "\<not> submit_ready w \<or> (\<exists>a. snd (calc_yesterday_hours w) = Inl a)"
  shows "\<exists>t a. add_time_log w tok = (t, Inl a) \<and> abort_status a = 1 \<and> net_calls t = []"
  using assms calc_yesterday_hours_cases [of w] unfolding add_time_log_def submit_ready_iff
  by (elim disjE exE)
     (auto simp: io_defs get_env_required Let_def abort_status_def net_calls_def)

lemma add_time_log_submit:
  assumes "submit_ready w" "calc_yesterday_hours w = ([], Inr (date_str, hours_str))"
  shows "\<exists>url hs t r. add_time_log w tok =
            (Stdout (LoggingTime date_str hours_str)
             # Net (LogsCall url
                 (urlencode (log_fields date_str
                    (py_str (os_getenv w ''ZOHO_BILL_STATUS'' (Some ''Billable''))) hours_str
                    (py_str (os_getenv w ''ZOHO_NOTES_PREFIX'' (Some ''GitHub auto log''))
                       @ '' - '' @ date_str)
                    (environ w ''ZOHO_USER_ID''))) hs) # t, r)
          \<and> net_calls t = [] \<and> (case r of Inl a \<Rightarrow> abort_status a = 1 | Inr _ \<Rightarrow> True)"
  using assms unfolding add_time_log_def submit_ready_iff
  by (simp add: io_defs get_env_required Let_def abort_status_def net_calls_def log_fields_def
      split: submit_reply.split option.split)


lemma net_calls_simps [simp]:
  "net_calls [] = []"
  "net_calls (Net c # t) = c # net_calls t"
  "net_calls (Stdout m # t) = net_calls t"
  "net_calls (Stderr m # t) = net_calls t"
  "net_calls (t @ t') = net_calls t @ net_calls t'"
  by (simp_all add: net_calls_def)

lemma net_calls_abort_report [simp]: "net_calls (abort_report a) = []"
  by (simp add: abort_report_def split: abort.split)

lemma logs_calls_simps [simp]:
  "logs_calls [] = []"
  "logs_calls (Net (TokenCall u d) # t) = logs_calls t"
  "logs_calls (Net (LogsCall u d h) # t) = LogsCall u d h # logs_calls t"
  "logs_calls (Stdout m # t) = logs_calls t"
  "logs_calls (Stderr m # t) = logs_calls t"
  "logs_calls (t @ t') = logs_calls t @ logs_calls t'"
  by (simp_all add: logs_calls_def is_logs_call_def)

lemma logs_calls_quiet: "net_calls t = [] \<Longrightarrow> logs_calls t = []"
  by (simp add: logs_calls_def)

lemma logs_calls_abort_report [simp]: "logs_calls (abort_report a) = []"
  by (simp add: logs_calls_quiet)

lemma get_access_token_not_ready:
  "\<not> token_ready w \<Longrightarrow>
   \<exists>t. get_access_token w = (t, Inl (SysExit 1)) \<and> net_calls t = []"
  unfolding get_access_token_def token_ready_iff
  by (auto simp: io_defs get_env_required)

lemma main_token_fails: "get_access_token w = (t, Inl a) \<Longrightarrow> main w = (t, Inl a)"
  by (simp add: main_def)

lemma main_token_ok:
  "get_access_token w = (t, Inr tok) \<Longrightarrow>
   main w = (t @ fst (add_time_log w tok), snd (add_time_log w tok))"
  by (simp add: main_def)

lemma run_token_not_ready:
  assumes "\<not> token_ready w"
  shows "exit_status w = 1 \<and> net_calls (fst (run_process w)) = []"
proof -
  from get_access_token_not_ready [OF assms] obtain t
    where "get_access_token w = (t, Inl (SysExit 1))" "net_calls t = []" by blast
  then show ?thesis
    by (simp add: exit_status_def run_process_def main_token_fails abort_status_def)
qed

lemma run_process_calls:
  "(exit_status w = 1 \<and> logs_calls (fst (run_process w)) = []) \<or>
   (\<exists>date_str hours_str url hs.
      submit_ready w \<and> calc_yesterday_hours w = ([], Inr (date_str, hours_str)) \<and>
      (exit_status w = 0 \<or> exit_status w = 1) \<and>
      logs_calls (fst (run_process w)) =
        [LogsCall url
           (urlencode (log_fields date_str
              (py_str (os_getenv w ''ZOHO_BILL_STATUS'' (Some ''Billable''))) hours_str
              (py_str (os_getenv w ''ZOHO_NOTES_PREFIX'' (Some ''GitHub auto log''))
                 @ '' - '' @ date_str)
              (environ w ''ZOHO_USER_ID''))) hs])"
proof -
  consider (fail) t a where "get_access_token w = (t, Inl a)" "abort_status a = 1" "logs_calls t = []"
    | (ok) tok u d where "get_access_token w = ([Net (TokenCall u d)], Inr tok)"
    using get_access_token_cases [of w] by blast
  then show ?thesis
  proof cases
    case fail
    then show ?thesis
      by (simp add: exit_status_def run_process_def main_token_fails)
  next
    case ok
    note m = main_token_ok [OF ok]
    show ?thesis
    proof (cases "submit_ready w \<and> (\<exists>r. snd (calc_yesterday_hours w) = Inr r)")
      case False
      then have "\<not> submit_ready w \<or> (\<exists>a. snd (calc_yesterday_hours w) = Inl a)"
        by (cases "snd (calc_yesterday_hours w)") auto
      from add_time_log_early [OF this, of tok] obtain t a
        where "add_time_log w tok = (t, Inl a)" "abort_status a = 1" "net_calls t = []" by blast
      then show ?thesis
        by (simp add: exit_status_def run_process_def m logs_calls_quiet)
    next
      case True
      then obtain date_str hours_str where c: "calc_yesterday_hours w = ([], Inr (date_str, hours_str))"
        using calc_yesterday_hours_cases [of w] by auto
      from True have r: "submit_ready w" by simp
      from add_time_log_submit [OF r c, of tok] obtain url hs t res
        where a: "add_time_log w tok =
            (Stdout (LoggingTime date_str hours_str)
             # Net (LogsCall url
                 (urlencode (log_fields date_str
                    (py_str (os_getenv w ''ZOHO_BILL_STATUS'' (Some ''Billable''))) hours_str
                    (py_str (os_getenv w ''ZOHO_NOTES_PREFIX'' (Some ''GitHub auto log''))
                       @ '' - '' @ date_str)
                    (environ w ''ZOHO_USER_ID''))) hs) # t, res)"
          and q: "net_calls t = []"
          and s: "case res of Inl a \<Rightarrow> abort_status a = 1 | Inr _ \<Rightarrow> True"
        by blast
      have "exit_status w = 0 \<or> exit_status w = 1"
        using s by (cases res) (simp_all add: exit_status_def run_process_def m a)
      moreover have "logs_calls (fst (run_process w)) =
        [LogsCall url
           (urlencode (log_fields date_str
              (py_str (os_getenv w ''ZOHO_BILL_STATUS'' (Some ''Billable''))) hours_str
              (py_str (os_getenv w ''ZOHO_NOTES_PREFIX'' (Some ''GitHub auto log''))
                 @ '' - '' @ date_str)
              (environ w ''ZOHO_USER_ID''))) hs]"
        by (cases res) (simp_all add: run_process_def m a logs_calls_quiet [OF q])
      ultimately show ?thesis using r c by blast
    qed
  qed
qed

subsection \<open>The window computation, case by case\<close>

lemma window_not_after:
  fixes sh sm eh em :: nat and y :: datetime
  assumes "sh < 24" "sm < 60" "eh < 24" "em < 60" "eh * 60 + em \<le> sh * 60 + sm"
  shows "dt_le (y\<lparr>hour := int eh, minute := int em, second := 0, microsecond := 0\<rparr>)
               (y\<lparr>hour := int sh, minute := int sm, second := 0, microsecond := 0\<rparr>)"
  using assms by (auto simp: dt_le_def dt_fields_def)

lemma calc_yesterday_hours_clock:
  fixes sh sm eh em :: nat
  assumes st: "start_setting w = clock_text sh sm"
    and en: "end_setting w = clock_text eh em"
    and rng: "sh < 24" "sm < 60" "eh < 24" "em < 60"
  shows "calc_yesterday_hours w =
     (case zone_now w (tz_setting w) of
        None \<Rightarrow> ([], Inl (Uncaught (ZoneInfoFailed (tz_setting w))))
      | Some now \<Rightarrow>
          (case minus_one_day now of
             Inl e \<Rightarrow> ([], Inl (Uncaught e))
           | Inr y \<Rightarrow>
               if eh * 60 + em \<le> sh * 60 + sm then ([Stderr EndNotAfterStart], Inl (SysExit 1))
               else ([], Inr (strftime_mdY y,
                       clock_text (((eh * 60 + em) - (sh * 60 + sm)) div 60)
                                  (((eh * 60 + em) - (sh * 60 + sm)) mod 60)))))"
proof -
  define d where "d = (eh * 60 + em) - (sh * 60 + sm)"
  have dlt: "d div 60 < 100" "d mod 60 < 100" using rng unfolding d_def by arith+
  have us: "unpack_two_ints (int_max_str_digits w) (unicode_fold w)
              (split_on (CHR '':'') (start_setting w)) = Inr (int sh, int sm)"
    unfolding st using rng by (intro unpack_clock_text) simp_all
  have ue: "unpack_two_ints (int_max_str_digits w) (unicode_fold w)
              (split_on (CHR '':'') (end_setting w)) = Inr (int eh, int em)"
    unfolding en using rng by (intro unpack_clock_text) simp_all
  have fm: "fmt_02d (int d div 60) = two_digits (d div 60)"
    "fmt_02d (int d mod 60) = two_digits (d mod 60)"
    using fmt_02d_two [OF dlt(1)] fmt_02d_two [OF dlt(2)] by (simp_all add: zdiv_int zmod_int)
  have rs: "\<And>y. replace_time y (int sh) (int sm)
      = Inr (y\<lparr>hour := int sh, minute := int sm, second := 0, microsecond := 0\<rparr>)"
    and re: "\<And>y. replace_time y (int eh) (int em)
      = Inr (y\<lparr>hour := int eh, minute := int em, second := 0, microsecond := 0\<rparr>)"
    using rng by (simp_all add: replace_time_def fits_c_int_def)
  show ?thesis
  proof (cases "eh * 60 + em \<le> sh * 60 + sm")
    case True
    note le = window_not_after [OF rng True]
    show ?thesis
      unfolding calc_yesterday_hours_def
      using True
      by (simp add: start_setting_def [symmetric] end_setting_def [symmetric]
            tz_setting_def [symmetric] us ue rs re le Let_def split: option.split sum.split)
         (simp add: io_defs)
  next
    case False
    then have lt: "sh * 60 + sm < eh * 60 + em" by simp
    note wm = window_minutes [OF rng lt]
    show ?thesis
      unfolding calc_yesterday_hours_def
      using False
      by (simp add: start_setting_def [symmetric] end_setting_def [symmetric]
            tz_setting_def [symmetric] us ue wm Let_def d_def [symmetric] fm
            split: option.split sum.split)
         (simp add: io_defs clock_text_def)
  qed
qed

subsection \<open>Form bodies\<close>

lemma hex_char_no_sep:
  assumes "n < 16"
  shows "hex_char n \<noteq> CHR ''&'' \<and> hex_char n \<noteq> CHR ''=''"
proof -
  from assms have "hex_char n \<in> set ''0123456789ABCDEF''"
    unfolding hex_char_def by (intro nth_mem) simp
  then show ?thesis by auto
qed

lemma quote_byte_no_sep: "CHR ''&'' \<notin> set (quote_byte c) \<and> CHR ''='' \<notin> set (quote_byte c)"
proof -
  have "(of_char c :: nat) < 256" by simp
  then have "(of_char c :: nat) div 16 < 16" "(of_char c :: nat) mod 16 < 16" by arith+
  then show ?thesis
    using hex_char_no_sep [of "of_char c div 16"] hex_char_no_sep [of "of_char c mod 16"]
    by (auto simp: quote_byte_def is_unreserved_def Let_def)
qed

lemma quote_plus_no_sep: "CHR ''&'' \<notin> set (quote_plus s) \<and> CHR ''='' \<notin> set (quote_plus s)"
  using quote_byte_no_sep by (induction s) (auto simp: quote_plus_def)

lemma split_on_no_sep: "sep \<notin> set p \<Longrightarrow> split_on sep p = [p]"
  by (induction p) auto

lemma split_on_append_sep: "sep \<notin> set p \<Longrightarrow> split_on sep (p @ sep # r) = p # split_on sep r"
  by (induction p) auto

lemma split_on_join_amp:
  "ps \<noteq> [] \<Longrightarrow> \<forall>p \<in> set ps. CHR ''&'' \<notin> set p \<Longrightarrow> split_on (CHR ''&'') (join_amp ps) = ps"
  by (induction ps rule: join_amp.induct) (simp_all add: split_on_no_sep split_on_append_sep)

lemma form_keys_urlencode:
  assumes "ps \<noteq> []"
  shows "form_keys (urlencode ps) = map (\<lambda>(k, v). quote_plus k) ps"
proof -
  let ?enc = "\<lambda>(k, v). quote_plus k @ ''='' @ quote_plus v"
  have "\<forall>p \<in> set (map ?enc ps). CHR ''&'' \<notin> set p"
    using quote_plus_no_sep by auto
  with assms have "split_on (CHR ''&'') (urlencode ps) = map ?enc ps"
    unfolding urlencode_def by (intro split_on_join_amp) simp_all
  moreover have "takeWhile (\<lambda>c. c \<noteq> CHR ''='') (?enc p) = (\<lambda>(k, v). quote_plus k) p" for p
    using quote_plus_no_sep [of "fst p"] by (cases p) (auto simp: takeWhile_tail)
  ultimately show ?thesis by (simp add: form_keys_def)
qed

lemma form_keys_log_fields:
  "form_keys (urlencode (log_fields d b h n owner)) =
     [''date'', ''bill_status'', ''hours'', ''notes''] @ (if truthy_str owner then [''owner''] else [])"
proof -
  have q: "quote_plus ''date'' = ''date''" "quote_plus ''bill_status'' = ''bill_status''"
    "quote_plus ''hours'' = ''hours''" "quote_plus ''notes'' = ''notes''"
    "quote_plus ''owner'' = ''owner''"
    by code_simp+
  have "log_fields d b h n owner \<noteq> []" by (simp add: log_fields_def)
  then show ?thesis
    by (simp add: form_keys_urlencode) (simp add: log_fields_def q)
qed

subsection \<open>The time window\<close>

text \<open>
  C1. The configured time zone is recognised and its current date is a calendar date after
  the year 1000; the start and end settings (or their defaults) are clock strings
  \<open>HH:MM\<close> with hours below 24 and minutes below 60, the end after the start. Then
  \<open>calc_yesterday_hours\<close> returns, with no output and no network call, the date
  string \<open>MM-DD-YYYY\<close> of the day whose ordinal is one less than today's, and
  the duration string \<open>HH:MM\<close> of end minus start in whole minutes, split into
  hours and remaining minutes.
\<close>

theorem calc_yesterday_hours_window:
  fixes sh sm eh em :: nat
  assumes tz: "zone_now w (tz_setting w) = Some now"
    and now: "valid_date now" "1000 < year now"
    and st: "start_setting w = clock_text sh sm"
    and en: "end_setting w = clock_text eh em"
    and rng: "sh < 24" "sm < 60" "eh < 24" "em < 60"
    and lt: "sh * 60 + sm < eh * 60 + em"
  shows "\<exists>y. minus_one_day now = Inr y \<and> valid_date y \<and> toordinal y = toordinal now - 1 \<and>
           calc_yesterday_hours w =
             ([], Inr (date_text y,
                       clock_text (((eh * 60 + em) - (sh * 60 + sm)) div 60)
                                  (((eh * 60 + em) - (sh * 60 + sm)) mod 60)))"
proof -
  from now(2) obtain y where y: "minus_one_day now = Inr y"
    using minus_one_day_defined [of now] by auto
  have vy: "valid_date y" using now(1) y by (rule minus_one_day_valid)
  have oy: "toordinal y = toordinal now - 1" using now(1) y by (rule minus_one_day_ordinal)
  have "year now - 1 \<le> year y" using y by (auto simp: minus_one_day_def split: if_splits)
  with now(2) have "1000 \<le> year y" by simp
  with vy have date: "strftime_mdY y = date_text y" by (rule strftime_mdY_date_text)
  have "calc_yesterday_hours w =
             ([], Inr (date_text y,
                       clock_text (((eh * 60 + em) - (sh * 60 + sm)) div 60)
                                  (((eh * 60 + em) - (sh * 60 + sm)) mod 60)))"
    using lt by (simp add: calc_yesterday_hours_clock [OF st en rng] tz y date)
  with y vy oy show ?thesis by blast
qed

theorem calc_yesterday_hours_window_witness:
  "calc_yesterday_hours example_world = ([], Inr (''11-02-2026'', ''09:00''))"
proof -
  have tz: "zone_now example_world (tz_setting example_world) = Some example_now"
    by (simp add: example_world_def tz_setting_def os_getenv_def example_env_def)
  have now: "valid_date example_now" "1000 < year example_now"
    by (simp_all add: valid_date_def example_now_def days_in_month_def)
  have st: "start_setting example_world = clock_text 9 30"
    by code_simp
  have en: "end_setting example_world = clock_text 18 30"
    by code_simp
  from calc_yesterday_hours_window [OF tz now st en]
  obtain y where y: "minus_one_day example_now = Inr y"
    and c: "calc_yesterday_hours example_world = ([], Inr (date_text y, clock_text 9 0))"
    by auto
  from y have "y = example_now\<lparr>day := 2\<rparr>"
    by (simp add: minus_one_day_def example_now_def)
  moreover have "date_text (example_now\<lparr>day := 2\<rparr>) = ''11-02-2026''" by code_simp
  moreover have "clock_text 9 0 = ''09:00''" by code_simp
  ultimately show ?thesis using c by simp
qed

text \<open>
  C7. With the start setting \<open>09:30\<close> and the end setting \<open>18:30\<close> (the defaults), in a
  recognised time zone whose current date is after the year 1, the computed duration
  string is \<open>09:00\<close>.
\<close>

theorem default_window_duration:
  assumes tz: "zone_now w (tz_setting w) = Some now" and now: "1 < year now"
    and st: "start_setting w = ''09:30''" and en: "end_setting w = ''18:30''"
  shows "\<exists>date_str. calc_yesterday_hours w = ([], Inr (date_str, ''09:00''))"
proof -
  have c: "clock_text 9 30 = ''09:30''" "clock_text 18 30 = ''18:30''" "clock_text 9 0 = ''09:00''"
    by code_simp+
  from now obtain y where y: "minus_one_day now = Inr y"
    using minus_one_day_defined [of now] by auto
  have "calc_yesterday_hours w = ([], Inr (strftime_mdY y, clock_text 9 0))"
    using calc_yesterday_hours_clock [of w 9 30 18 30] st en
    by (simp add: c(1,2) tz y)
  then show ?thesis by (simp add: c(3))
qed

theorem default_window_duration_witness:
  "\<exists>date_str. calc_yesterday_hours example_world = ([], Inr (date_str, ''09:00''))"
proof -
  have tz: "zone_now example_world (tz_setting example_world) = Some example_now"
    by (simp add: example_world_def tz_setting_def os_getenv_def example_env_def)
  have now: "1 < year example_now" by (simp add: example_now_def)
  have st: "start_setting example_world = ''09:30''" by code_simp
  have en: "end_setting example_world = ''18:30''" by code_simp
  show ?thesis by (rule default_window_duration [OF tz now st en])
qed

text \<open>
  C2, as the script has it. With clock strings \<open>HH:MM\<close> for start and end and the end
  not after the start, the process ends with status 1 and the log-submission endpoint is
  never called; the window computation itself makes no network call, and where the time
  zone is recognised it prints "End time must be after start time" and exits with
  status 1. The token exchange comes first in \<open>main\<close> and is not held back.
\<close>

theorem window_not_after_start_aborts:
  fixes sh sm eh em :: nat
  assumes st: "start_setting w = clock_text sh sm"
    and en: "end_setting w = clock_text eh em"
    and rng: "sh < 24" "sm < 60" "eh < 24" "em < 60"
    and le: "eh * 60 + em \<le> sh * 60 + sm"
  shows "exit_status w = 1 \<and> logs_calls (fst (run_process w)) = [] \<and>
         net_calls (fst (calc_yesterday_hours w)) = [] \<and>
         (\<forall>now y. zone_now w (tz_setting w) = Some now \<and> minus_one_day now = Inr y \<longrightarrow>
            calc_yesterday_hours w = ([Stderr EndNotAfterStart], Inl (SysExit 1)))"
proof -
  note c = calc_yesterday_hours_clock [OF st en rng]
  have f: "\<exists>a. snd (calc_yesterday_hours w) = Inl a"
    using le by (simp add: c split: option.split sum.split)
  then have "\<not> (\<exists>d h. calc_yesterday_hours w = ([], Inr (d, h)))" by auto
  with run_process_calls [of w] have "exit_status w = 1 \<and> logs_calls (fst (run_process w)) = []"
    by blast
  moreover have "net_calls (fst (calc_yesterday_hours w)) = []"
    using le by (simp add: c split: option.split sum.split)
  moreover have "\<forall>now y. zone_now w (tz_setting w) = Some now \<and> minus_one_day now = Inr y \<longrightarrow>
            calc_yesterday_hours w = ([Stderr EndNotAfterStart], Inl (SysExit 1))"
    using le by (simp add: c)
  ultimately show ?thesis by blast
qed

theorem window_not_after_start_aborts_witness:
  "exit_status reversed_world = 1 \<and> logs_calls (fst (run_process reversed_world)) = [] \<and>
   calc_yesterday_hours reversed_world = ([Stderr EndNotAfterStart], Inl (SysExit 1))"
proof -
  have st: "start_setting reversed_world = clock_text 18 30" by code_simp
  have en: "end_setting reversed_world = clock_text 9 30" by code_simp
  have tz: "zone_now reversed_world (tz_setting reversed_world) = Some example_now"
    by (simp add: reversed_world_def example_world_def tz_setting_def os_getenv_def example_env_def)
  have y: "minus_one_day example_now = Inr (example_now\<lparr>day := 2\<rparr>)"
    by (simp add: minus_one_day_def example_now_def)
  from window_not_after_start_aborts [OF st en] tz y show ?thesis by simp
qed

theorem token_exchange_precedes_window_check:
  "exit_status reversed_world = 1 \<and>
   net_calls (fst (run_process reversed_world)) =
     [TokenCall ''https://accounts.zoho.in/oauth/v2/token''
        ''refresh_token=rt&client_id=cid&client_secret=sec&grant_type=refresh_token'']"
  by code_simp

subsection \<open>Configuration\<close>

lemma get_env_required_falsy:
  "\<not> truthy_str (os_getenv w name dflt) \<Longrightarrow>
   get_env w name dflt True = ([Stderr (MissingEnv name)], Inl (SysExit 1))"
  by (simp add: get_env_required)

lemma required_falsy_run:
  assumes "name \<in> set required_settings" "\<not> truthy_str (environ w name)"
  shows "exit_status w = 1 \<and> logs_calls (fst (run_process w)) = [] \<and>
         (name \<in> set token_settings \<longrightarrow> net_calls (fst (run_process w)) = [])"
proof (cases "name \<in> set token_settings")
  case True
  with assms(2) have "\<not> token_ready w" by (auto simp: token_ready_def list_all_iff)
  from run_token_not_ready [OF this] show ?thesis by (simp add: logs_calls_quiet)
next
  case False
  with assms have "\<not> submit_ready w"
    by (auto simp: required_settings_def submit_ready_def list_all_iff)
  with run_process_calls [of w] False show ?thesis by blast
qed

text \<open>
  C4, as the script has it. A required setting absent from the environment ends the
  process with status 1, and the log-submission endpoint is never called. The lookup that
  finds it absent prints the message naming it and exits at once. No network call at all
  is made when the setting is one of the three the token step reads; the three the
  submitter reads are looked up after the token exchange.
\<close>

theorem required_setting_absent:
  assumes "name \<in> set required_settings" "environ w name = None"
  shows "get_env w name None True = ([Stderr (MissingEnv name)], Inl (SysExit 1)) \<and>
         exit_status w = 1 \<and> logs_calls (fst (run_process w)) = [] \<and>
         (name \<in> set token_settings \<longrightarrow> net_calls (fst (run_process w)) = [])"
proof -
  from assms(2) have f: "\<not> truthy_str (environ w name)" by (simp add: truthy_str_def)
  then have "get_env w name None True = ([Stderr (MissingEnv name)], Inl (SysExit 1))"
    by (simp add: get_env_required_falsy)
  with required_falsy_run [OF assms(1) f] show ?thesis by simp
qed

theorem required_setting_absent_witness:
  "get_env no_secret_world ''ZOHO_CLIENT_SECRET'' None True
     = ([Stderr (MissingEnv ''ZOHO_CLIENT_SECRET'')], Inl (SysExit 1)) \<and>
   exit_status no_secret_world = 1 \<and> net_calls (fst (run_process no_secret_world)) = []"
proof -
  have r: "''ZOHO_CLIENT_SECRET'' \<in> set required_settings"
    and t: "''ZOHO_CLIENT_SECRET'' \<in> set token_settings"
    by (simp_all add: required_settings_def token_settings_def)
  have e: "environ no_secret_world ''ZOHO_CLIENT_SECRET'' = None"
    by (simp add: no_secret_world_def)
  from required_setting_absent [OF r e] t show ?thesis by simp
qed

theorem submitter_setting_read_after_token_exchange:
  "environ no_portal_world ''ZOHO_PORTAL_ID'' = None \<and>
   run_process no_portal_world =
     ([Net (TokenCall ''https://accounts.zoho.in/oauth/v2/token''
         ''refresh_token=rt&client_id=cid&client_secret=sec&grant_type=refresh_token''),
       Stderr (MissingEnv ''ZOHO_PORTAL_ID'')], 1)"
  by code_simp

lemma token_first_unset:
  assumes "first_unset w token_settings = Some name"
  shows "get_access_token w = ([Stderr (MissingEnv name)], Inl (SysExit 1))"
  using assms unfolding first_unset_def token_settings_def get_access_token_def
  by (auto simp: get_env_required io_defs split: if_splits)

lemma submit_first_unset:
  assumes "first_unset w submit_settings = Some name"
  shows "add_time_log w tok = ([Stderr (MissingEnv name)], Inl (SysExit 1))"
  using assms unfolding first_unset_def submit_settings_def add_time_log_def
  by (auto simp: get_env_required io_defs split: if_splits)

lemma run_token_first_unset:
  "first_unset w token_settings = Some name \<Longrightarrow> run_process w = ([Stderr (MissingEnv name)], 1)"
  by (simp add: run_process_def main_token_fails [OF token_first_unset] abort_status_def
      abort_report_def)

lemma run_submit_first_unset:
  "get_access_token w = (t, Inr tok) \<Longrightarrow> first_unset w submit_settings = Some name \<Longrightarrow>
     run_process w = (t @ [Stderr (MissingEnv name)], 1)"
  by (simp add: run_process_def main_token_ok submit_first_unset abort_status_def
      abort_report_def)

text \<open>
  C8, as the script has it. The lookup of a setting read with \<open>required=True\<close> whose
  variable is set to the empty string aborts exactly as for an unset one with no default,
  whatever default was passed: the message naming the setting, then exit status 1. For
  the six settings the script reads this way the process ends with status 1 and never
  calls the log-submission endpoint. The process prints the message naming the setting
  when the run reaches its lookup: when it is the first unset or empty one of the three
  token settings, or the token was acquired and it is the first unset or empty one of the
  three submitter settings. A run that aborts earlier reports that abort instead.
\<close>

theorem required_setting_empty:
  assumes "environ w name = Some []"
  shows "get_env w name dflt True = ([Stderr (MissingEnv name)], Inl (SysExit 1)) \<and>
         get_env w name dflt True
           = get_env (w\<lparr>environ := (environ w)(name := None)\<rparr>) name None True \<and>
         (name \<in> set required_settings \<longrightarrow>
            exit_status w = 1 \<and> logs_calls (fst (run_process w)) = []) \<and>
         (first_unset w token_settings = Some name \<longrightarrow>
            run_process w = ([Stderr (MissingEnv name)], 1)) \<and>
         (\<forall>t tok. get_access_token w = (t, Inr tok) \<and> first_unset w submit_settings = Some name \<longrightarrow>
            run_process w = (t @ [Stderr (MissingEnv name)], 1))"
proof -
  from assms have f: "\<not> truthy_str (os_getenv w name dflt)" "\<not> truthy_str (environ w name)"
    by (simp_all add: truthy_str_def os_getenv_def)
  have "get_env (w\<lparr>environ := (environ w)(name := None)\<rparr>) name None True
          = ([Stderr (MissingEnv name)], Inl (SysExit 1))"
    by (rule get_env_required_falsy) (simp add: truthy_str_def)
  with get_env_required_falsy [OF f(1)] required_falsy_run [OF _ f(2)]
    run_token_first_unset [of w name] run_submit_first_unset [of w _ _ name]
  show ?thesis by simp
qed

theorem required_setting_empty_witness:
  "get_env empty_secret_world ''ZOHO_CLIENT_SECRET'' (Some ''fallback'') True
     = ([Stderr (MissingEnv ''ZOHO_CLIENT_SECRET'')], Inl (SysExit 1)) \<and>
   run_process empty_secret_world = ([Stderr (MissingEnv ''ZOHO_CLIENT_SECRET'')], 1) \<and>
   run_process empty_portal_world =
     ([Net (TokenCall ''https://accounts.zoho.in/oauth/v2/token''
         ''refresh_token=rt&client_id=cid&client_secret=sec&grant_type=refresh_token''),
       Stderr (MissingEnv ''ZOHO_PORTAL_ID'')], 1) \<and>
   logs_calls (fst (run_process empty_portal_world)) = []"
proof -
  let ?t = "[Net (TokenCall ''https://accounts.zoho.in/oauth/v2/token''
         ''refresh_token=rt&client_id=cid&client_secret=sec&grant_type=refresh_token'')]"
  have e1: "environ empty_secret_world ''ZOHO_CLIENT_SECRET'' = Some []"
    by (simp add: empty_secret_world_def)
  have u1: "first_unset empty_secret_world token_settings = Some ''ZOHO_CLIENT_SECRET''"
    by code_simp
  from required_setting_empty [OF e1, of "Some ''fallback''"] u1
  have a: "get_env empty_secret_world ''ZOHO_CLIENT_SECRET'' (Some ''fallback'') True
     = ([Stderr (MissingEnv ''ZOHO_CLIENT_SECRET'')], Inl (SysExit 1)) \<and>
   run_process empty_secret_world = ([Stderr (MissingEnv ''ZOHO_CLIENT_SECRET'')], 1)"
    by simp
  have e2: "environ empty_portal_world ''ZOHO_PORTAL_ID'' = Some []"
    by (simp add: empty_portal_world_def)
  have r2: "''ZOHO_PORTAL_ID'' \<in> set required_settings"
    by (simp add: required_settings_def submit_settings_def)
  have u2: "first_unset empty_portal_world submit_settings = Some ''ZOHO_PORTAL_ID''"
    by code_simp
  have g2: "get_access_token empty_portal_world = (?t, Inr (JStr ''tok''))" by code_simp
  from required_setting_empty [OF e2, of None] r2 u2 g2
  have b: "run_process empty_portal_world = (?t @ [Stderr (MissingEnv ''ZOHO_PORTAL_ID'')], 1) \<and>
           logs_calls (fst (run_process empty_portal_world)) = []"
    by auto
  from a b show ?thesis by simp
qed

theorem earlier_abort_hides_empty_setting:
  "environ empty_portal_offline_world ''ZOHO_PORTAL_ID'' = Some [] \<and>
   run_process empty_portal_offline_world =
     ([Net (TokenCall ''https://accounts.zoho.in/oauth/v2/token''
         ''refresh_token=rt&client_id=cid&client_secret=sec&grant_type=refresh_token''),
       Stderr (TokenError ''timed out'')], 1)"
  by code_simp

subsection \<open>Token acquisition\<close>

lemma get_access_token_reply:
  assumes "token_ready w"
  shows "get_access_token w =
     (case token_reply w of
        Inl e \<Rightarrow> ([Net (TokenCall (token_request_url w) (token_request_body w)),
                   Stderr (TokenError e)], Inl (SysExit 1))
      | Inr js \<Rightarrow>
          (case js of
             JObj kvs \<Rightarrow>
               (case map_of kvs ''access_token'' of
                  None \<Rightarrow> ([Net (TokenCall (token_request_url w) (token_request_body w)),
                            Stderr (TokenFailed js)], Inl (SysExit 1))
                | Some v \<Rightarrow>
                    if truthy_json v
                    then ([Net (TokenCall (token_request_url w) (token_request_body w))], Inr v)
                    else ([Net (TokenCall (token_request_url w) (token_request_body w)),
                           Stderr (TokenFailed js)], Inl (SysExit 1)))
           | _ \<Rightarrow> ([Net (TokenCall (token_request_url w) (token_request_body w))],
                    Inl (Uncaught (NoGetAttribute js)))))"
  using assms unfolding get_access_token_def token_ready_iff
  by (simp add: get_env_required Let_def io_defs token_reply_def token_request_url_def
        token_request_body_def split: sum.split json.split option.split)

lemma run_token_aborts:
  assumes "get_access_token w = (t, Inl (SysExit n))"
  shows "run_process w = (t, n)"
  using assms by (simp add: run_process_def main_token_fails abort_status_def abort_report_def)

text \<open>
  C3. The token settings are there and the token endpoint answers a JSON object with no
  \<open>access_token\<close> field. Then the process makes the token call, prints
  "Failed to get access token" with the whole parsed response, and exits with status 1;
  nothing else happens, so the log-submission endpoint is never called.
\<close>

theorem token_reply_without_access_token:
  assumes "token_ready w" "token_reply w = Inr (JObj kvs)" "map_of kvs ''access_token'' = None"
  shows "run_process w =
           ([Net (TokenCall (token_request_url w) (token_request_body w)),
             Stderr (TokenFailed (JObj kvs))], 1) \<and>
         logs_calls (fst (run_process w)) = []"
proof -
  have "get_access_token w =
          ([Net (TokenCall (token_request_url w) (token_request_body w)),
            Stderr (TokenFailed (JObj kvs))], Inl (SysExit 1))"
    using assms(2,3) by (simp add: get_access_token_reply [OF assms(1)])
  then show ?thesis by (simp add: run_token_aborts)
qed

theorem token_reply_without_access_token_witness:
  "run_process error_reply_world =
     ([Net (TokenCall ''https://accounts.zoho.in/oauth/v2/token''
         ''refresh_token=rt&client_id=cid&client_secret=sec&grant_type=refresh_token''),
       Stderr (TokenFailed (JObj [(''error'', JStr ''invalid_code'')]))], 1)"
proof -
  have r: "token_ready error_reply_world" by code_simp
  have t: "token_reply error_reply_world = Inr (JObj [(''error'', JStr ''invalid_code'')])"
    by (simp add: token_reply_def error_reply_world_def)
  have m: "map_of [(''error'', JStr ''invalid_code'')] ''access_token'' = None" by simp
  have u: "token_request_url error_reply_world = ''https://accounts.zoho.in/oauth/v2/token''"
    by code_simp
  have b: "token_request_body error_reply_world
             = ''refresh_token=rt&client_id=cid&client_secret=sec&grant_type=refresh_token''"
    by code_simp
  from token_reply_without_access_token [OF r t m] show ?thesis by (simp add: u b)
qed

text \<open>
  C9. The token settings are there and the token endpoint answers a JSON object whose
  \<open>access_token\<close> field is falsy (empty string, null, false, zero, empty list or
  object). Then \<open>get_access_token\<close> does not return: it prints "Failed to get access
  token" with the response and exits, and the process ends with status 1.
\<close>

theorem falsy_access_token_aborts:
  assumes "token_ready w" "token_reply w = Inr (JObj kvs)"
    "map_of kvs ''access_token'' = Some v" "\<not> truthy_json v"
  shows "get_access_token w =
           ([Net (TokenCall (token_request_url w) (token_request_body w)),
             Stderr (TokenFailed (JObj kvs))], Inl (SysExit 1)) \<and>
         exit_status w = 1"
proof -
  have g: "get_access_token w =
          ([Net (TokenCall (token_request_url w) (token_request_body w)),
            Stderr (TokenFailed (JObj kvs))], Inl (SysExit 1))"
    using assms(2-4) by (simp add: get_access_token_reply [OF assms(1)])
  then show ?thesis by (simp add: exit_status_def run_token_aborts)
qed

theorem falsy_access_token_aborts_witness:
  "snd (get_access_token empty_token_world) = Inl (SysExit 1) \<and>
   exit_status empty_token_world = 1"
proof -
  have r: "token_ready empty_token_world" by code_simp
  have t: "token_reply empty_token_world = Inr (JObj [(''access_token'', JStr [])])"
    by (simp add: token_reply_def empty_token_world_def)
  have m: "map_of [(''access_token'', JStr [])] ''access_token'' = Some (JStr [])" by simp
  have f: "\<not> truthy_json (JStr [])" by simp
  from falsy_access_token_aborts [OF r t m f] show ?thesis by simp
qed

subsection \<open>The submission body\<close>

text \<open>
  C5, as the script has it. A run that ends with status 0 has computed a date string and a
  duration string and has called the log-submission endpoint once, with the form-encoded
  fields date, bill_status, hours and notes, and owner exactly when the user identifier
  is set and not empty. The notes are the notes prefix, then \<open>" - "\<close>, then the date
  string.
\<close>

theorem successful_run_body:
  assumes "exit_status w = 0"
  shows "\<exists>date_str hours_str url hs.
           calc_yesterday_hours w = ([], Inr (date_str, hours_str)) \<and>
           logs_calls (fst (run_process w)) =
             [LogsCall url
                (urlencode (log_fields date_str
                   (py_str (os_getenv w ''ZOHO_BILL_STATUS'' (Some ''Billable''))) hours_str
                   (py_str (os_getenv w ''ZOHO_NOTES_PREFIX'' (Some ''GitHub auto log''))
                      @ '' - '' @ date_str)
                   (environ w ''ZOHO_USER_ID''))) hs]"
  using run_process_calls [of w] assms by auto

theorem successful_run_body_witness:
  "exit_status owner_world = 0 \<and>
   (\<exists>url hs. logs_calls (fst (run_process owner_world)) =
      [LogsCall url
        (urlencode [(''date'', ''11-02-2026''), (''bill_status'', ''Billable''),
                    (''hours'', ''09:00''), (''notes'', ''GitHub auto log - 11-02-2026''),
                    (''owner'', ''u42'')]) hs])"
proof -
  have e: "exit_status owner_world = 0" by code_simp
  have c: "calc_yesterday_hours owner_world = ([], Inr (''11-02-2026'', ''09:00''))" by code_simp
  have b: "py_str (os_getenv owner_world ''ZOHO_BILL_STATUS'' (Some ''Billable'')) = ''Billable''"
    by code_simp
  have n: "py_str (os_getenv owner_world ''ZOHO_NOTES_PREFIX'' (Some ''GitHub auto log''))
             = ''GitHub auto log''"
    by code_simp
  have u: "environ owner_world ''ZOHO_USER_ID'' = Some ''u42''"
    by (simp add: owner_world_def)
  from successful_run_body [OF e] show ?thesis
    by (simp add: e c b n u log_fields_def truthy_str_def)
qed

theorem notes_carry_a_separator:
  "exit_status example_world = 0 \<and>
   logs_calls (fst (run_process example_world)) =
     [LogsCall ''https://projectsapi.zoho.com/restapi/portal/p1/projects/p2/tasks/t3/logs/''
        ''date=11-02-2026&bill_status=Billable&hours=09%3A00&notes=GitHub+auto+log+-+11-02-2026''
        [(''Authorization'', OAuthToken (JStr ''tok'')),
         (''Content-Type'', Plain ''application/x-www-form-urlencoded;charset=UTF-8'')]] \<and>
   ''date=11-02-2026&bill_status=Billable&hours=09%3A00&notes=GitHub+auto+log+-+11-02-2026''
     \<noteq> urlencode (log_fields ''11-02-2026'' ''Billable'' ''09:00''
                   (''GitHub auto log'' @ ''11-02-2026'') None)"
  by code_simp

text \<open>
  C10. With the user-identifier variable set to the empty string, a run calls the
  log-submission endpoint at most once, and the body it sends has the four fields date,
  bill_status, hours and notes and no owner field.
\<close>

theorem empty_user_id_omits_owner:
  assumes "environ w ''ZOHO_USER_ID'' = Some []"
  shows "logs_calls (fst (run_process w)) = [] \<or>
         (\<exists>url body hs date_str hours_str.
            logs_calls (fst (run_process w)) = [LogsCall url body hs] \<and>
            body = urlencode
                     [(''date'', date_str),
                      (''bill_status'', py_str (os_getenv w ''ZOHO_BILL_STATUS'' (Some ''Billable''))),
                      (''hours'', hours_str),
                      (''notes'', py_str (os_getenv w ''ZOHO_NOTES_PREFIX'' (Some ''GitHub auto log''))
                                   @ '' - '' @ date_str)] \<and>
            form_keys body = [''date'', ''bill_status'', ''hours'', ''notes''])"
proof -
  have l: "log_fields d b h n (Some []) = [(''date'', d), (''bill_status'', b), (''hours'', h), (''notes'', n)]"
    for d b h n by (simp add: log_fields_def truthy_str_def)
  have k: "form_keys (urlencode (log_fields d b h n (Some [])))
             = [''date'', ''bill_status'', ''hours'', ''notes'']" for d b h n
    by (simp add: form_keys_log_fields truthy_str_def)
  from run_process_calls [of w] consider (none) "logs_calls (fst (run_process w)) = []"
    | (one) date_str hours_str url hs where "logs_calls (fst (run_process w)) =
        [LogsCall url
           (urlencode (log_fields date_str
              (py_str (os_getenv w ''ZOHO_BILL_STATUS'' (Some ''Billable''))) hours_str
              (py_str (os_getenv w ''ZOHO_NOTES_PREFIX'' (Some ''GitHub auto log''))
                 @ '' - '' @ date_str)
              (environ w ''ZOHO_USER_ID''))) hs]"
    by blast
  then show ?thesis
  proof cases
    case none
    then show ?thesis by simp
  next
    case one
    then have a: "logs_calls (fst (run_process w)) =
        [LogsCall url
           (urlencode
              [(''date'', date_str),
               (''bill_status'', py_str (os_getenv w ''ZOHO_BILL_STATUS'' (Some ''Billable''))),
               (''hours'', hours_str),
               (''notes'', py_str (os_getenv w ''ZOHO_NOTES_PREFIX'' (Some ''GitHub auto log''))
                            @ '' - '' @ date_str)]) hs]"
      by (simp add: assms l)
    show ?thesis
      apply (rule disjI2)
      apply (rule exI [of _ url])
      apply (rule exI [of _ "urlencode
              [(''date'', date_str),
               (''bill_status'', py_str (os_getenv w ''ZOHO_BILL_STATUS'' (Some ''Billable''))),
               (''hours'', hours_str),
               (''notes'', py_str (os_getenv w ''ZOHO_NOTES_PREFIX'' (Some ''GitHub auto log''))
                            @ '' - '' @ date_str)]"])
      apply (rule exI [of _ hs])
      apply (rule exI [of _ date_str])
      apply (rule exI [of _ hours_str])
      using a k [unfolded l] apply simp
      done
  qed
qed


theorem empty_user_id_omits_owner_witness:
  "\<exists>url hs. logs_calls (fst (run_process empty_user_world)) =
      [LogsCall url
        ''date=11-02-2026&bill_status=Billable&hours=09%3A00&notes=GitHub+auto+log+-+11-02-2026''
        hs] \<and>
     form_keys
       ''date=11-02-2026&bill_status=Billable&hours=09%3A00&notes=GitHub+auto+log+-+11-02-2026''
       = [''date'', ''bill_status'', ''hours'', ''notes'']"
proof -
  have e: "environ empty_user_world ''ZOHO_USER_ID'' = Some []"
    by (simp add: empty_user_world_def)
  have n: "logs_calls (fst (run_process empty_user_world)) =
      [LogsCall ''https://projectsapi.zoho.com/restapi/portal/p1/projects/p2/tasks/t3/logs/''
        ''date=11-02-2026&bill_status=Billable&hours=09%3A00&notes=GitHub+auto+log+-+11-02-2026''
        [(''Authorization'', OAuthToken (JStr ''tok'')),
         (''Content-Type'', Plain ''application/x-www-form-urlencoded;charset=UTF-8'')]]"
    by code_simp
  from empty_user_id_omits_owner [OF e] show ?thesis
    unfolding n by auto
qed

subsection \<open>Rejected time windows\<close>

lemma unpack_two_ints_Inr_iff:
  "unpack_two_ints m tab ps = Inr (h, mi) \<longleftrightarrow>
     (\<exists>p q. ps = [p, q] \<and> py_int m tab p = Inr h \<and> py_int m tab q = Inr mi)"
  by (auto simp: unpack_two_ints_def split: list.splits sum.splits)


lemma replace_time_Inr_iff:
  "(\<exists>d. replace_time y h m = Inr d) \<longleftrightarrow> 0 \<le> h \<and> h \<le> 23 \<and> 0 \<le> m \<and> m \<le> 59"
  by (auto simp: replace_time_def fits_c_int_def)



lemma unpack_clock_ok:
  assumes "unpack_two_ints (int_max_str_digits w) (unicode_fold w) (split_on (CHR '':'') s) = Inr (h, m)"
  shows "clock_ok w s \<longleftrightarrow> 0 \<le> h \<and> h \<le> 23 \<and> 0 \<le> m \<and> m \<le> 59"
  using assms
  by (auto simp: unpack_two_ints_Inr_iff py_int_Inr_iff clock_ok_def piece_ok_def piece_text_def)

lemma not_unpacked_not_clock_ok:
  assumes "unpack_two_ints (int_max_str_digits w) (unicode_fold w) (split_on (CHR '':'') s) = Inl e"
  shows "\<not> clock_ok w s"
proof
  assume "clock_ok w s"
  then obtain p q where "split_on (CHR '':'') s = [p, q]" "piece_ok w p" "piece_ok w q"
    by (auto simp: clock_ok_def split: list.splits)
  then have "unpack_two_ints (int_max_str_digits w) (unicode_fold w) (split_on (CHR '':'') s)
      = Inr (literal_value (piece_text w p), literal_value (piece_text w q))"
    by (simp add: unpack_two_ints_Inr_iff py_int_Inr_iff piece_ok_def piece_text_def)
  with assms show False by simp
qed

lemma calc_yesterday_hours_unfold:
  "calc_yesterday_hours w =
     (case zone_now w (tz_setting w) of
        None \<Rightarrow> ([], Inl (Uncaught (ZoneInfoFailed (tz_setting w))))
      | Some now \<Rightarrow>
     (case minus_one_day now of
        Inl e \<Rightarrow> ([], Inl (Uncaught e))
      | Inr y \<Rightarrow>
     (case unpack_two_ints (int_max_str_digits w) (unicode_fold w)
             (split_on (CHR '':'') (start_setting w)) of
        Inl e \<Rightarrow> ([], Inl (Uncaught e))
      | Inr (sh, sm) \<Rightarrow>
     (case unpack_two_ints (int_max_str_digits w) (unicode_fold w)
             (split_on (CHR '':'') (end_setting w)) of
        Inl e \<Rightarrow> ([], Inl (Uncaught e))
      | Inr (eh, em) \<Rightarrow>
     (case replace_time y sh sm of
        Inl e \<Rightarrow> ([], Inl (Uncaught e))
      | Inr s \<Rightarrow>
     (case replace_time y eh em of
        Inl e \<Rightarrow> ([], Inl (Uncaught e))
      | Inr e \<Rightarrow>
          if dt_le e s then ([Stderr EndNotAfterStart], Inl (SysExit 1))
          else ([], Inr (strftime_mdY y,
                  fmt_02d (seconds (dt_sub e s) div 60 div 60) @ '':''
                  @ fmt_02d (seconds (dt_sub e s) div 60 mod 60)))))))))"
  unfolding calc_yesterday_hours_def
  by (auto simp: start_setting_def [symmetric] end_setting_def [symmetric]
        tz_setting_def [symmetric] io_defs Let_def
      split: option.split sum.split prod.split)





lemma accepted_window_no_raise:
  assumes "zone_now w (tz_setting w) = Some now" "minus_one_day now = Inr y"
    "clock_ok w (start_setting w)" "clock_ok w (end_setting w)"
  shows "(\<exists>r. calc_yesterday_hours w = ([], Inr r)) \<or>
         calc_yesterday_hours w = ([Stderr EndNotAfterStart], Inl (SysExit 1))"
proof -
  let ?us = "unpack_two_ints (int_max_str_digits w) (unicode_fold w)
               (split_on (CHR '':'') (start_setting w))"
  let ?ue = "unpack_two_ints (int_max_str_digits w) (unicode_fold w)
               (split_on (CHR '':'') (end_setting w))"
  from assms(3) not_unpacked_not_clock_ok [of w "start_setting w"]
  obtain sh sm where us: "?us = Inr (sh, sm)" by (cases ?us) auto
  from assms(4) not_unpacked_not_clock_ok [of w "end_setting w"]
  obtain eh em where ue: "?ue = Inr (eh, em)" by (cases ?ue) auto
  from assms(3) obtain s where s: "replace_time y sh sm = Inr s"
    using replace_time_Inr_iff [of y sh sm] by (auto simp: unpack_clock_ok [OF us])
  from assms(4) obtain e where e: "replace_time y eh em = Inr e"
    using replace_time_Inr_iff [of y eh em] by (auto simp: unpack_clock_ok [OF ue])
  show ?thesis
    by (simp add: calc_yesterday_hours_unfold assms(1,2) us ue s e)
qed




end
